theory Spec2Isabelle
  imports Complex_Main "HOL-Library.Word"
begin

section \<open>The voice assistant hook (useBackendVoiceAssistant.js)\<close>

text \<open>
  A shallow embedding of the React hook \<open>useBackendVoiceAssistant\<close>. The hook's
  \<open>useState\<close> cells and \<open>useRef\<close> cells are the fields of one record; every
  callback of the hook (a WebSocket handler, a LiveKit room handler, a timer callback, a
  public operation) is a function from the record to the updated record. What the browser
  decides (whether JSON parses, what the backend answers, whether the microphone is
  granted) is a parameter of the callback. Calls of \<open>console.log\<close> are left out:
  they touch nothing the hook can read.
\<close>

subsection \<open>JavaScript values\<close>

text \<open>
  The values \<open>JSON.parse\<close> can return, and \<open>undefined\<close>, which a read of a
  missing property returns. An object is the list of its members in the order of the text.
\<close>

datatype jsval =
    JUndefined
  | JNull
  | JBool bool
  | JNum rat
  | JStr string
  | JArr "jsval list"
  | JObj "(string \<times> jsval) list"

text \<open>Truthiness, as \<open>!x\<close>, \<open>x || y\<close> and \<open>x && y\<close> test it.\<close>

fun truthy :: "jsval \<Rightarrow> bool" where
  "truthy JUndefined = False"
| "truthy JNull = False"
| "truthy (JBool b) = b"
| "truthy (JNum r) = (r \<noteq> 0)"
| "truthy (JStr t) = (t \<noteq> [])"
| "truthy (JArr _) = True"
| "truthy (JObj _) = True"

definition js_or :: "jsval \<Rightarrow> jsval \<Rightarrow> jsval" where
  "js_or a b = (if truthy a then a else b)"

text \<open>
  Reading a property throws a TypeError on \<open>null\<close> and \<open>undefined\<close>. On an object
  parsed from JSON the last member of that name wins; a missing member reads as
  \<open>undefined\<close>, and so does any of the names this hook reads (\<open>type\<close>,
  \<open>transcript\<close>, \<open>text\<close>, \<open>message\<close>, \<open>session_id\<close>, \<open>livekit_room\<close>,
  \<open>livekit_user_token\<close>) on a number, a string, a boolean or an array.
\<close>

fun nullish :: "jsval \<Rightarrow> bool" where
  "nullish JUndefined = True"
| "nullish JNull = True"
| "nullish _ = False"

fun jsprop :: "jsval \<Rightarrow> string \<Rightarrow> jsval" where
  "jsprop (JObj kvs) k = (case map_of (rev kvs) k of None \<Rightarrow> JUndefined | Some v \<Rightarrow> v)"
| "jsprop _ k = JUndefined"

text \<open>
  A thrown error: its \<open>name\<close> and its \<open>message\<close>. The TypeError of a property
  read on \<open>null\<close> or \<open>undefined\<close> carries the text V8 gives it, which names the
  value and puts the property in single quotes.
\<close>

datatype exn = Exn (ename: string) (emessage: string)

definition null_read :: "jsval \<Rightarrow> string \<Rightarrow> exn" where
  "null_read v k =
     Exn ''TypeError''
       (''Cannot read properties of '' @ (if v = JNull then ''null'' else ''undefined'')
        @ '' (reading '' @ [CHR 0x27] @ k @ [CHR 0x27] @ '')'')"

definition get_prop :: "jsval \<Rightarrow> string \<Rightarrow> exn + jsval" where
  "get_prop v k = (if nullish v then Inl (null_read v k) else Inr (jsprop v k))"

text \<open>Decimal digits of a number, as a template literal prints it.\<close>

fun string_of_nat :: "nat \<Rightarrow> string" where
  "string_of_nat n =
     (if n < 10 then [''0123456789'' ! n]
      else string_of_nat (n div 10) @ [''0123456789'' ! (n mod 10)])"

declare string_of_nat.simps [simp del]

subsection \<open>The state of the hook\<close>

datatype role = User | Assistant

record turn =
  turn_type :: role
  content :: jsval

datatype status = Disconnected | Connecting | Connected | ErrorStatus

datatype ready_state = CONNECTING | OPEN | CLOSING | CLOSED

text \<open>
  A WebSocket made by \<open>connectToVoiceService\<close>: the session id its URL ends with, the
  \<open>sessionDataToUse\<close> its handlers closed over, and its \<open>readyState\<close>.
\<close>

record socket =
  url_session_id :: jsval
  session_used :: jsval
  readyState :: ready_state

datatype recorder_state = Inactive | Recording | Paused

datatype room_state = RoomDisconnected | RoomConnected

text \<open>
  What the hook sends on the socket: \<open>JSON.stringify({type: 'control', action})\<close> or a
  chunk of recorded audio.
\<close>

datatype frame = Control string | AudioChunk

text \<open>The calls the hook makes on objects of the browser and of LiveKit, in order.\<close>

datatype call =
    Fetch_sessions
  | WsSend nat frame
  | WsClose nat
  | RecorderStart
  | RecorderStop
  | TrackStop nat
  | ContextClose
  | RoomDisconnect
  | CancelAnimationFrame nat
  | DispatchVoiceActivityZero
  | DispatchMicrophoneError string

record hook =
  isConnected :: bool
  isListening :: bool
  isSpeaking :: bool
  messages :: "turn list"
  connectionStatus :: status
  error :: jsval
  sessionId :: jsval
  sessionData :: jsval
  wsRef :: "nat option"
  mediaRecorderRef :: "recorder_state option"
  audioContextRef :: bool
  audioStreamRef :: "nat list option"
  roomRef :: "room_state option"
  analyserRef :: bool
  animationFrameRef :: "nat option"
  sockets :: "socket list"
  timers :: "nat list"
  now :: nat
  calls :: "call list"

text \<open>
  \<open>wsRef\<close> is the index in \<open>sockets\<close> of the socket the ref holds; \<open>sockets\<close> are
  all the sockets ever constructed. \<open>audioStreamRef\<close> holds the ids of the captured
  stream's tracks. \<open>audioContextRef\<close> and \<open>analyserRef\<close> say whether the ref holds an
  object (the hook reads no property of either). \<open>timers\<close> are the due times, in
  milliseconds, of the pending \<open>setTimeout\<close> callbacks of the \<open>ai_response\<close> case,
  each of which is \<open>() => setIsSpeaking(false)\<close>; \<open>now\<close> is the clock.
\<close>

definition initial :: hook where
  "initial = \<lparr> isConnected = False, isListening = False, isSpeaking = False,
      messages = [], connectionStatus = Disconnected, error = JNull,
      sessionId = JNull, sessionData = JNull, wsRef = None, mediaRecorderRef = None,
      audioContextRef = False, audioStreamRef = None, roomRef = None,
      analyserRef = False, animationFrameRef = None, sockets = [], timers = [],
      now = 0, calls = [] \<rparr>"

subsection \<open>Inbound control messages\<close>

text \<open>\<open>setMessages(prev => [...prev, m])\<close>\<close>

definition appendMessage :: "turn \<Rightarrow> hook \<Rightarrow> hook" where
  "appendMessage m s = s\<lparr>messages := messages s @ [m]\<rparr>"

text \<open>
  \<open>handleMessageFromBackend\<close>: the switch on \<open>data.type\<close> compares with \<open>===\<close>, so
  only a string selects a case. Reading \<open>data.type\<close> throws when \<open>data\<close> is
  \<open>null\<close>.
\<close>

definition handleMessageFromBackend :: "jsval \<Rightarrow> hook \<Rightarrow> exn + hook" where
  "handleMessageFromBackend data s =
     (if nullish data then Inl (null_read data ''type'')
      else let t = jsprop data ''type'' in
        if t = JStr ''user_transcript'' then
          Inr (appendMessage \<lparr>turn_type = User, content = jsprop data ''transcript''\<rparr> s)
        else if t = JStr ''ai_response'' then
          Inr ((appendMessage \<lparr>turn_type = Assistant, content = jsprop data ''text''\<rparr> s)
                 \<lparr>isSpeaking := True, timers := timers s @ [now s + 2000]\<rparr>)
        else if t = JStr ''listening_started'' then
          Inr (s\<lparr>isListening := True, isSpeaking := False\<rparr>)
        else if t = JStr ''listening_stopped'' then
          Inr (s\<lparr>isListening := False\<rparr>)
        else if t = JStr ''processing_started'' then
          Inr (s\<lparr>isListening := False, isSpeaking := True\<rparr>)
        else if t = JStr ''processing_stopped'' then
          Inr (s\<lparr>isSpeaking := False\<rparr>)
        else if t = JStr ''session_ready'' then Inr s
        else if t = JStr ''session_stopped'' then Inr s
        else if t = JStr ''connection_established'' then Inr s
        else if t = JStr ''error'' then
          Inr (s\<lparr>error := js_or (jsprop data ''message'') (JStr ''Unknown error from backend'')\<rparr>)
        else Inr s)"

text \<open>
  \<open>wsRef.current.onmessage\<close>: the argument is the result of \<open>JSON.parse(event.data)\<close>,
  \<open>None\<close> when it throws. Whatever is thrown inside the \<open>try\<close> ends in the
  \<open>catch\<close>, which sets the error text.
\<close>

definition ws_onmessage :: "jsval option \<Rightarrow> hook \<Rightarrow> hook" where
  "ws_onmessage parsed s =
     (case parsed of
        None \<Rightarrow> s\<lparr>error := JStr ''Error processing response from voice service''\<rparr>
      | Some data \<Rightarrow>
          (case handleMessageFromBackend data s of
             Inl e \<Rightarrow> s\<lparr>error := JStr ''Error processing response from voice service''\<rparr>
           | Inr s' \<Rightarrow> s'))"

text \<open>
  \<open>handleDataReceived\<close>, the handler of the room's data channel: the same taxonomy
  without the timer and without the \<open>error\<close> case; its \<open>catch\<close> only logs.
\<close>

definition handleDataReceived :: "jsval option \<Rightarrow> hook \<Rightarrow> hook" where
  "handleDataReceived parsed s =
     (case parsed of
        None \<Rightarrow> s
      | Some data \<Rightarrow>
          if nullish data then s
          else let t = jsprop data ''type'' in
            if t = JStr ''user_transcript'' then
              appendMessage \<lparr>turn_type = User, content = jsprop data ''transcript''\<rparr> s
            else if t = JStr ''ai_response'' then
              appendMessage \<lparr>turn_type = Assistant, content = jsprop data ''text''\<rparr> s
            else if t = JStr ''listening_started'' then
              s\<lparr>isListening := True, isSpeaking := False\<rparr>
            else if t = JStr ''listening_stopped'' then
              s\<lparr>isListening := False\<rparr>
            else if t = JStr ''processing_started'' then
              s\<lparr>isListening := False, isSpeaking := True\<rparr>
            else if t = JStr ''processing_stopped'' then
              s\<lparr>isSpeaking := False\<rparr>
            else s)"

text \<open>
  Time passing: the clock moves on by \<open>d\<close> milliseconds and every pending timer that
  is due by then runs its callback, \<open>setIsSpeaking(false)\<close>.
\<close>

definition advance :: "nat \<Rightarrow> hook \<Rightarrow> hook" where
  "advance d s =
     (let t = now s + d in
      if filter (\<lambda>due. due \<le> t) (timers s) = [] then s\<lparr>now := t\<rparr>
      else s\<lparr>isSpeaking := False, timers := filter (\<lambda>due. t < due) (timers s), now := t\<rparr>)"

subsection \<open>Session and channel\<close>

text \<open>What \<open>fetch\<close> of \<open>POST /sessions\<close> and the reading of its body come to.\<close>

datatype fetch_result =
    FetchRejected exn
  | ResponseNotOk nat string string
  | JsonRejected exn
  | ResponseJson jsval

text \<open>
  \<open>createSession\<close> after its \<open>fetch\<close> has settled: a response that is not ok throws
  an Error with the status, the status text and the body; the parsed body is stored as
  \<open>sessionData\<close> and its \<open>session_id\<close> as \<open>sessionId\<close>. The \<open>catch\<close> rethrows.
\<close>

definition createSession :: "fetch_result \<Rightarrow> hook \<Rightarrow> exn + (jsval \<times> hook)" where
  "createSession r s =
     (case r of
        FetchRejected e \<Rightarrow> Inl e
      | ResponseNotOk st stText body \<Rightarrow>
          Inl (Exn ''Error'' (''Failed to create session: '' @ string_of_nat st @ '' '' @ stText
                 @ '' - '' @ body))
      | JsonRejected e \<Rightarrow> Inl e
      | ResponseJson sd \<Rightarrow>
          (case get_prop sd ''session_id'' of
             Inl e \<Rightarrow> Inl e
           | Inr sid \<Rightarrow> Inr (sd, s\<lparr>sessionId := sid, sessionData := sd\<rparr>)))"

text \<open>The \<open>catch\<close> of \<open>connectToVoiceService\<close>.\<close>

definition connect_catch :: "exn \<Rightarrow> hook \<Rightarrow> hook" where
  "connect_catch e s =
     s\<lparr>error := js_or (JStr (emessage e)) (JStr ''Failed to connect to voice service''),
       connectionStatus := ErrorStatus\<rparr>"

text \<open>
  The rest of \<open>connectToVoiceService\<close> once \<open>sessionDataToUse\<close> is known:
  \<open>wsRef.current = new WebSocket(wsUrl)\<close>, whatever the ref held before, and the four
  handlers are set on the new socket.
\<close>

definition connect_socket :: "jsval \<Rightarrow> hook \<Rightarrow> hook" where
  "connect_socket sd s =
     (case get_prop sd ''session_id'' of
        Inl e \<Rightarrow> connect_catch e s
      | Inr sid \<Rightarrow>
          s\<lparr>wsRef := Some (length (sockets s)),
            sockets := sockets s @
              [\<lparr>url_session_id = sid, session_used = sd, readyState = CONNECTING\<rparr>]\<rparr>)"

text \<open>
  \<open>connectToVoiceService\<close>, up to its first suspension. With a session in
  \<open>sessionData\<close> it runs to its end; with none it calls \<open>createSession\<close>, which
  issues the \<open>fetch\<close>, and waits. \<open>sessionData\<close> is read from the state, that is
  through the closure of the latest render.
\<close>

definition connectToVoiceService :: "hook \<Rightarrow> hook" where
  "connectToVoiceService s =
     (let s1 = s\<lparr>connectionStatus := Connecting, error := JNull\<rparr> in
      if \<not> truthy (sessionData s1) then s1\<lparr>calls := calls s1 @ [Fetch_sessions]\<rparr>
      else connect_socket (sessionData s1) s1)"

text \<open>\<open>connectToVoiceService\<close> from the point where \<open>await createSession()\<close> returns.\<close>

definition connectToVoiceService_resume :: "fetch_result \<Rightarrow> hook \<Rightarrow> hook" where
  "connectToVoiceService_resume r s =
     (case createSession r s of
        Inl e \<Rightarrow> connect_catch e s
      | Inr (sd, s') \<Rightarrow> connect_socket sd s')"

subsection \<open>Audio\<close>

text \<open>
  \<open>requestMicrophoneAccess\<close>: \<open>getUserMedia\<close> gives a stream (the ids of its tracks)
  or rejects. The function returns or throws, and has changed the state either way.
\<close>

definition requestMicrophoneAccess :: "exn + nat list \<Rightarrow> hook \<Rightarrow> (exn + nat list) \<times> hook" where
  "requestMicrophoneAccess mic s =
     (case mic of
        Inr stream \<Rightarrow> (Inr stream, s\<lparr>audioStreamRef := Some stream, error := JNull\<rparr>)
      | Inl err \<Rightarrow>
          (let errorMessage =
             (if ename err = ''NotAllowedError'' then
                ''Microphone access was denied. Please click the microphone button again and allow access when prompted.''
              else if ename err = ''NotFoundError'' then
                ''No microphone found. Please connect a microphone and try again.''
              else if ename err = ''NotReadableError'' then
                ''Microphone is being used by another application. Please close other applications and try again.''
              else
                ''Microphone access denied. Please allow microphone access in your browser settings.'')
           in (Inl err, s\<lparr>error := JStr errorMessage,
                            calls := calls s @ [DispatchMicrophoneError errorMessage]\<rparr>)))"

text \<open>
  \<open>initializeAudio\<close>: \<open>ctor\<close> is what the \<open>MediaRecorder\<close> constructor throws, if
  it throws (an unsupported mime type).
\<close>

definition initializeAudio :: "exn + nat list \<Rightarrow> exn option \<Rightarrow> hook \<Rightarrow> bool \<times> hook" where
  "initializeAudio mic ctor s =
     (case requestMicrophoneAccess mic s of
        (Inl err, s1) \<Rightarrow>
          (False, s1\<lparr>error := JStr (''Failed to initialize audio: '' @ emessage err)\<rparr>)
      | (Inr stream, s1) \<Rightarrow>
          (let s2 = s1\<lparr>audioContextRef := True\<rparr> in
           case ctor of
             Some err \<Rightarrow>
               (False, s2\<lparr>error := JStr (''Failed to initialize audio: '' @ emessage err)\<rparr>)
           | None \<Rightarrow> (True, s2\<lparr>mediaRecorderRef := Some Inactive, analyserRef := True\<rparr>)))"

text \<open>
  \<open>connectToLiveKitRoom\<close>: the room is stored in \<open>roomRef\<close> before \<open>room.connect\<close>
  is awaited; the outcome is an error thrown by \<open>room.connect\<close>, one thrown by
  \<open>publishTrack\<close>, or success.
\<close>

datatype room_outcome = ConnectThrows exn | PublishThrows exn | RoomOk

definition connectToLiveKitRoom :: "room_outcome \<Rightarrow> hook \<Rightarrow> exn option \<times> hook" where
  "connectToLiveKitRoom outcome s =
     (let s1 = s\<lparr>roomRef := Some RoomDisconnected\<rparr> in
      case outcome of
        ConnectThrows err \<Rightarrow>
          (Some err, s1\<lparr>error := JStr (''Failed to connect to voice service: '' @ emessage err)\<rparr>)
      | PublishThrows err \<Rightarrow>
          (if audioStreamRef s1 \<noteq> None then
             (Some err, s1\<lparr>roomRef := Some RoomConnected,
                error := JStr (''Failed to connect to voice service: '' @ emessage err)\<rparr>)
           else (None, s1\<lparr>roomRef := Some RoomConnected\<rparr>))
      | RoomOk \<Rightarrow> (None, s1\<lparr>roomRef := Some RoomConnected\<rparr>))"

subsection \<open>The handlers of the WebSocket\<close>

definition welcomeMessage :: turn where
  "welcomeMessage = \<lparr>turn_type = Assistant,
     content = JStr ''Hello! I'm your Enterprise Travel Assistant. How can I help you plan your next trip?''\<rparr>"

definition set_readyState :: "nat \<Rightarrow> ready_state \<Rightarrow> hook \<Rightarrow> hook" where
  "set_readyState i r s = s\<lparr>sockets := (sockets s)[i := (sockets s ! i)\<lparr>readyState := r\<rparr>]\<rparr>"

text \<open>
  \<open>onopen\<close> of socket \<open>i\<close>, which the browser has just moved to \<open>OPEN\<close>. The two
  awaits are taken in one step, their outcomes given. A socket that was never made has no
  events.
\<close>

definition ws_onopen :: "nat \<Rightarrow> exn + nat list \<Rightarrow> exn option \<Rightarrow> room_outcome \<Rightarrow> hook \<Rightarrow> hook" where
  "ws_onopen i mic ctor outcome s =
     (if length (sockets s) \<le> i then s
      else
        let sd = session_used (sockets s ! i);
            s1 = snd (initializeAudio mic ctor (set_readyState i OPEN s)) in
        if nullish sd then s1
        else if truthy (jsprop sd ''livekit_user_token'') \<and> truthy (jsprop sd ''livekit_room'') then
          (case connectToLiveKitRoom outcome s1 of
             (Some err, s2) \<Rightarrow>
               s2\<lparr>error := JStr (''Failed to connect to voice service: '' @ emessage err),
                  connectionStatus := ErrorStatus\<rparr>
           | (None, s2) \<Rightarrow>
               appendMessage welcomeMessage
                 (s2\<lparr>isConnected := True, connectionStatus := Connected, error := JNull\<rparr>))
        else
          appendMessage welcomeMessage
            (s1\<lparr>isConnected := True, connectionStatus := Connected, error := JNull\<rparr>))"

text \<open>
  \<open>onerror\<close>: \<open>msg\<close> is the event's \<open>message\<close> (\<open>None\<close> when it has none) and
  \<open>str\<close> what its \<open>toString()\<close> returns.
\<close>

definition ws_onerror :: "string option \<Rightarrow> string \<Rightarrow> hook \<Rightarrow> hook" where
  "ws_onerror msg str s =
     (let errorMessage = (case msg of None \<Rightarrow> str | Some m \<Rightarrow> if m \<noteq> [] then m else str) in
      s\<lparr>error := JStr (''Connection error: '' @ errorMessage), connectionStatus := ErrorStatus\<rparr>)"

text \<open>
  The release steps that the close handler, the room handler and the unmount share, one
  definition for each \<open>if\<close> statement of the source:
  \<^item> \<open>if (mediaRecorderRef.current && mediaRecorderRef.current.state !== 'inactive')
    mediaRecorderRef.current.stop()\<close>, after which the recorder is inactive;
  \<^item> \<open>if (audioStreamRef.current) audioStreamRef.current.getTracks().forEach(track =>
    track.stop())\<close>;
  \<^item> \<open>if (audioContextRef.current) audioContextRef.current.close()\<close>;
  \<^item> \<open>if (roomRef.current) roomRef.current.disconnect()\<close>, after which the room is
    disconnected.

  No step assigns a ref: a ref that held an object holds it afterwards. The calls made
  are recorded in \<open>calls\<close>; what the browser does with a repeated call is not part of
  the hook.
\<close>

definition stop_recorder :: "hook \<Rightarrow> hook" where
  "stop_recorder s =
     (case mediaRecorderRef s of
        None \<Rightarrow> s
      | Some st \<Rightarrow>
          if st \<noteq> Inactive then
            s\<lparr>mediaRecorderRef := Some Inactive, calls := calls s @ [RecorderStop]\<rparr>
          else s)"

definition stop_tracks :: "hook \<Rightarrow> hook" where
  "stop_tracks s =
     (case audioStreamRef s of
        None \<Rightarrow> s
      | Some tracks \<Rightarrow> s\<lparr>calls := calls s @ map TrackStop tracks\<rparr>)"

definition close_context :: "hook \<Rightarrow> hook" where
  "close_context s = (if audioContextRef s then s\<lparr>calls := calls s @ [ContextClose]\<rparr> else s)"

definition disconnect_room :: "hook \<Rightarrow> hook" where
  "disconnect_room s =
     (case roomRef s of
        None \<Rightarrow> s
      | Some _ \<Rightarrow> s\<lparr>roomRef := Some RoomDisconnected, calls := calls s @ [RoomDisconnect]\<rparr>)"

text \<open>
  \<open>onclose\<close> of socket \<open>i\<close> with the close event's code and reason; the browser has
  moved the socket to \<open>CLOSED\<close>.
\<close>

definition ws_onclose :: "nat \<Rightarrow> nat \<Rightarrow> string \<Rightarrow> hook \<Rightarrow> hook" where
  "ws_onclose i code reason s =
     (if length (sockets s) \<le> i then s
      else
        let s1 = (set_readyState i CLOSED s)\<lparr>isConnected := False\<rparr>;
            s2 = disconnect_room (close_context (stop_tracks (stop_recorder s1))) in
        if code \<noteq> 1000 then
          s2\<lparr>error := JStr (''Connection closed: ''
                        @ (if reason \<noteq> [] then reason else ''Unknown reason'')
                        @ '' (Code: '' @ string_of_nat code @ '')''),
             connectionStatus := ErrorStatus\<rparr>
        else s2\<lparr>connectionStatus := Disconnected\<rparr>)"

subsection \<open>The handlers of the room\<close>

definition handleTrackSubscribed :: "bool \<Rightarrow> hook \<Rightarrow> hook" where
  "handleTrackSubscribed is_audio s = (if is_audio then s\<lparr>isSpeaking := True\<rparr> else s)"

definition handleTrackUnsubscribed :: "bool \<Rightarrow> hook \<Rightarrow> hook" where
  "handleTrackUnsubscribed is_audio s = (if is_audio then s\<lparr>isSpeaking := False\<rparr> else s)"

text \<open>
  \<open>handleRoomDisconnected\<close>, the handler of the room's \<open>Disconnected\<close> event: the
  room (the one \<open>roomRef\<close> holds) is disconnected when the event fires.
\<close>

definition handleRoomDisconnected :: "hook \<Rightarrow> hook" where
  "handleRoomDisconnected s =
     close_context (stop_tracks
       (s\<lparr>roomRef := map_option (\<lambda>_. RoomDisconnected) (roomRef s),
          isConnected := False, connectionStatus := Disconnected\<rparr>))"

subsection \<open>Listening\<close>

text \<open>\<open>wsRef.current && wsRef.current.readyState === WebSocket.OPEN\<close>\<close>

definition ws_is_open :: "hook \<Rightarrow> bool" where
  "ws_is_open s =
     (case wsRef s of
        None \<Rightarrow> False
      | Some i \<Rightarrow> i < length (sockets s) \<and> readyState (sockets s ! i) = OPEN)"

definition ws_send :: "frame \<Rightarrow> hook \<Rightarrow> hook" where
  "ws_send frame s =
     (case wsRef s of
        None \<Rightarrow> s
      | Some i \<Rightarrow> s\<lparr>calls := calls s @ [WsSend i frame]\<rparr>)"

text \<open>
  The \<open>try\<close> block of \<open>startListening\<close>: the control message, then the recorder.
  \<open>thrown\<close> is what \<open>mediaRecorderRef.current.start(1000)\<close> throws, if it throws.
\<close>

definition startListening_body :: "exn option \<Rightarrow> hook \<Rightarrow> hook" where
  "startListening_body thrown s =
     (let s1 = (if ws_is_open s then ws_send (Control ''start'') s else s) in
      if mediaRecorderRef s1 = Some Inactive then
        (case thrown of
           None \<Rightarrow> s1\<lparr>mediaRecorderRef := Some Recording, calls := calls s1 @ [RecorderStart]\<rparr>
         | Some err \<Rightarrow>
             s1\<lparr>calls := calls s1 @ [RecorderStart],
                error := JStr (''Failed to start listening: '' @ emessage err)\<rparr>)
      else s1)"

text \<open>
  \<open>startListening\<close> up to its first suspension: not connected, it calls
  \<open>connectToVoiceService\<close> and then waits a second, and \<open>startListening_body\<close>
  runs as a later step; connected, the body runs at once.
\<close>

definition startListening :: "exn option \<Rightarrow> hook \<Rightarrow> hook" where
  "startListening thrown s =
     (if \<not> isConnected s then connectToVoiceService s else startListening_body thrown s)"

definition stopListening :: "hook \<Rightarrow> hook" where
  "stopListening s =
     (let s1 = (if ws_is_open s then ws_send (Control ''stop'') s else s) in
      if mediaRecorderRef s1 = Some Recording then
        s1\<lparr>mediaRecorderRef := Some Inactive, calls := calls s1 @ [RecorderStop]\<rparr>
      else s1)"

definition toggleListening :: "exn option \<Rightarrow> hook \<Rightarrow> hook" where
  "toggleListening thrown s = (if isListening s then stopListening s else startListening thrown s)"

subsection \<open>Voice activity detection and unmount\<close>

text \<open>
  \<open>detectVoiceActivity\<close> as the hook's state sees it: with an analyser it ends by
  storing the handle \<open>h\<close> that \<open>requestAnimationFrame\<close> returned. The recorder's
  \<open>onstart\<close> calls it through \<open>startVoiceActivityDetection\<close>, and every animation
  frame calls it again.
\<close>

definition detectVoiceActivity_frame :: "nat \<Rightarrow> hook \<Rightarrow> hook" where
  "detectVoiceActivity_frame h s = (if \<not> analyserRef s then s else s\<lparr>animationFrameRef := Some h\<rparr>)"

text \<open>\<open>stopVoiceActivityDetection\<close>, the recorder's \<open>onstop\<close>. A handle of 0 is falsy.\<close>

definition stopVoiceActivityDetection :: "hook \<Rightarrow> hook" where
  "stopVoiceActivityDetection s =
     (let s1 = (case animationFrameRef s of
                  None \<Rightarrow> s
                | Some h \<Rightarrow>
                    if h \<noteq> 0 then
                      s\<lparr>animationFrameRef := None, calls := calls s @ [CancelAnimationFrame h]\<rparr>
                    else s)
      in s1\<lparr>calls := calls s1 @ [DispatchVoiceActivityZero]\<rparr>)"

text \<open>
  \<open>ondataavailable\<close> of the recorder, with its \<open>FileReader\<close>'s \<open>onload\<close>: a chunk
  that is not empty is sent while the room is connected and the socket open.
\<close>

definition recorder_ondataavailable :: "nat \<Rightarrow> hook \<Rightarrow> hook" where
  "recorder_ondataavailable size_of_chunk s =
     (if 0 < size_of_chunk \<and> roomRef s = Some RoomConnected then
        (if ws_is_open s then ws_send AudioChunk s else s)
      else s)"

text \<open>The cleanup that the effect returns, run at unmount.\<close>

definition close_socket :: "hook \<Rightarrow> hook" where
  "close_socket s =
     (case wsRef s of
        None \<Rightarrow> s
      | Some i \<Rightarrow>
          (if i < length (sockets s) \<and> readyState (sockets s ! i) \<in> {CONNECTING, OPEN}
           then set_readyState i CLOSING s else s)\<lparr>calls := calls s @ [WsClose i]\<rparr>)"

definition cancel_frame :: "hook \<Rightarrow> hook" where
  "cancel_frame s =
     (case animationFrameRef s of
        None \<Rightarrow> s
      | Some h \<Rightarrow> if h \<noteq> 0 then s\<lparr>calls := calls s @ [CancelAnimationFrame h]\<rparr> else s)"

definition cleanup :: "hook \<Rightarrow> hook" where
  "cleanup s =
     cancel_frame (disconnect_room (close_socket (close_context (stop_tracks (stop_recorder s)))))"

subsection \<open>Events\<close>

text \<open>
  Everything that can happen to the hook: a call of one of its operations, a callback
  the browser or LiveKit runs, or time passing. A run is a list of events, handled one
  after the other in the single thread.
\<close>

datatype event =
    Connect
  | SessionSettled fetch_result
  | SocketOpen nat "exn + nat list" "exn option" room_outcome
  | SocketMessage "jsval option"
  | SocketError "string option" string
  | SocketClose nat nat string
  | RoomData "jsval option"
  | TrackSubscribed bool
  | TrackUnsubscribed bool
  | RoomGone
  | StartListening "exn option"
  | StartListeningResumed "exn option"
  | StopListening
  | ToggleListening "exn option"
  | RecorderStarted nat
  | AnimationFrame nat
  | RecorderStopped
  | DataAvailable nat
  | Unmount
  | Advance nat

fun step :: "hook \<Rightarrow> event \<Rightarrow> hook" where
  "step s Connect = connectToVoiceService s"
| "step s (SessionSettled r) = connectToVoiceService_resume r s"
| "step s (SocketOpen i mic ctor outcome) = ws_onopen i mic ctor outcome s"
| "step s (SocketMessage parsed) = ws_onmessage parsed s"
| "step s (SocketError msg str) = ws_onerror msg str s"
| "step s (SocketClose i code reason) = ws_onclose i code reason s"
| "step s (RoomData parsed) = handleDataReceived parsed s"
| "step s (TrackSubscribed is_audio) = handleTrackSubscribed is_audio s"
| "step s (TrackUnsubscribed is_audio) = handleTrackUnsubscribed is_audio s"
| "step s RoomGone = handleRoomDisconnected s"
| "step s (StartListening thrown) = startListening thrown s"
| "step s (StartListeningResumed thrown) = startListening_body thrown s"
| "step s StopListening = stopListening s"
| "step s (ToggleListening thrown) = toggleListening thrown s"
| "step s (RecorderStarted h) = detectVoiceActivity_frame h s"
| "step s (AnimationFrame h) = detectVoiceActivity_frame h s"
| "step s RecorderStopped = stopVoiceActivityDetection s"
| "step s (DataAvailable n) = recorder_ondataavailable n s"
| "step s Unmount = cleanup s"
| "step s (Advance d) = advance d s"

definition run :: "hook \<Rightarrow> event list \<Rightarrow> hook" where
  "run s evs = foldl step s evs"

subsection \<open>The voice activity sample\<close>

text \<open>
  The numbers \<open>detectVoiceActivity\<close> computes: a sum of bytes is an exact integer, a
  quotient is taken here as the exact rational that the double rounds, and a division by
  zero gives \<open>NaN\<close> (0/0) or \<open>Infinity\<close>.
\<close>

datatype jsnum = NaN | PosInf | Fin rat

definition js_div :: "nat \<Rightarrow> nat \<Rightarrow> jsnum" where
  "js_div a b = (if b = 0 then (if a = 0 then NaN else PosInf) else Fin (of_nat a / of_nat b))"

definition sensitivity :: rat where
  "sensitivity = 30"

text \<open>\<open>Math.min(1, x / sensitivity)\<close>\<close>

fun normalize :: "jsnum \<Rightarrow> jsnum" where
  "normalize NaN = NaN"
| "normalize PosInf = Fin 1"
| "normalize (Fin r) = Fin (min 1 (r / sensitivity))"

text \<open>The first loop: \<open>sum += dataArray[i]\<close>.\<close>

fun sum_loop :: "8 word list \<Rightarrow> nat \<Rightarrow> nat" where
  "sum_loop [] acc = acc"
| "sum_loop (x # xs) acc = sum_loop xs (acc + unat x)"

text \<open>The second loop, from index \<open>i\<close> on, with the three running sums.\<close>

fun band_loop :: "nat \<Rightarrow> nat \<Rightarrow> nat \<Rightarrow> 8 word list \<Rightarrow> nat \<times> nat \<times> nat \<Rightarrow> nat \<times> nat \<times> nat" where
  "band_loop midFreq highFreq i [] acc = acc"
| "band_loop midFreq highFreq i (x # xs) (lowSum, midSum, highSum) =
     band_loop midFreq highFreq (Suc i) xs
       (if i < midFreq then (lowSum + unat x, midSum, highSum)
        else if i < highFreq then (lowSum, midSum + unat x, highSum)
        else (lowSum, midSum, highSum + unat x))"

record sample =
  timestamp :: nat
  overall :: jsnum
  low :: jsnum
  mid :: jsnum
  high :: jsnum

definition maxHistoryLength :: nat where
  "maxHistoryLength = 50"

text \<open>The sample one run of \<open>detectVoiceActivity\<close> computes from the analyser's bins.\<close>

definition voice_sample :: "nat \<Rightarrow> 8 word list \<Rightarrow> sample" where
  "voice_sample time dataArray =
     (let bufferLength = length dataArray;
          average = js_div (sum_loop dataArray 0) bufferLength;
          midFreq = bufferLength div 3;
          highFreq = (2 * bufferLength) div 3;
          (lowSum, midSum, highSum) = band_loop midFreq highFreq 0 dataArray (0, 0, 0);
          lowAvg = js_div lowSum midFreq;
          midAvg = js_div midSum (highFreq - midFreq);
          highAvg = js_div highSum (bufferLength - highFreq)
      in \<lparr>timestamp = time, overall = normalize average, low = normalize lowAvg,
           mid = normalize midAvg, high = normalize highAvg\<rparr>)"

text \<open>
  \<open>detectVoiceActivity\<close>: the sample is pushed on the history, the oldest entry is
  shifted out beyond \<open>maxHistoryLength\<close>, and the event carries the sample and a copy
  of the history.
\<close>

definition detectVoiceActivity :: "nat \<Rightarrow> 8 word list \<Rightarrow> sample list \<Rightarrow> (sample \<times> sample list) \<times> sample list" where
  "detectVoiceActivity time dataArray activityHistory =
     (let smp = voice_sample time dataArray;
          pushed = activityHistory @ [smp];
          kept = (if maxHistoryLength < length pushed then tl pushed else pushed)
      in ((smp, kept), kept))"

subsection \<open>Predicates of the properties\<close>



text \<open>
  The Turn the transition table gives a \<open>user_transcript\<close> or an \<open>ai_response\<close>
  message: Turn(user, transcript), Turn(assistant, text).
\<close>

definition turn_of :: "jsval \<Rightarrow> turn" where
  "turn_of data =
     (if jsprop data ''type'' = JStr ''user_transcript''
      then \<lparr>turn_type = User, content = jsprop data ''transcript''\<rparr>
      else \<lparr>turn_type = Assistant, content = jsprop data ''text''\<rparr>)"

definition carries_turn :: "jsval \<Rightarrow> bool" where
  "carries_turn data =
     (jsprop data ''type'' = JStr ''user_transcript'' \<or> jsprop data ''type'' = JStr ''ai_response'')"

text \<open>An event that delivers the parsed message \<open>data\<close>, on the socket or on the room.\<close>

definition inbound :: "event \<Rightarrow> jsval \<Rightarrow> bool" where
  "inbound e data = (e = SocketMessage (Some data) \<or> e = RoomData (Some data))"

definition is_message :: "event \<Rightarrow> bool" where
  "is_message e = (case e of SocketMessage _ \<Rightarrow> True | RoomData _ \<Rightarrow> True | _ \<Rightarrow> False)"

text \<open>An inbound message of a type that resets \<open>isListening\<close>.\<close>

definition clears_listening :: "event \<Rightarrow> bool" where
  "clears_listening e =
     (case e of
        SocketMessage (Some data) \<Rightarrow>
          jsprop data ''type'' = JStr ''listening_stopped'' \<or> jsprop data ''type'' = JStr ''processing_started''
      | RoomData (Some data) \<Rightarrow>
          jsprop data ''type'' = JStr ''listening_stopped'' \<or> jsprop data ''type'' = JStr ''processing_started''
      | _ \<Rightarrow> False)"

text \<open>The type discriminators each of the two switches has a case for.\<close>

definition ws_types :: "string list" where
  "ws_types = [''user_transcript'', ''ai_response'', ''listening_started'', ''listening_stopped'',
     ''processing_started'', ''processing_stopped'', ''session_ready'', ''session_stopped'',
     ''connection_established'', ''error'']"

definition room_types :: "string list" where
  "room_types = [''user_transcript'', ''ai_response'', ''listening_started'', ''listening_stopped'',
     ''processing_started'', ''processing_stopped'']"

definition unknown_type :: "string list \<Rightarrow> jsval \<Rightarrow> bool" where
  "unknown_type known data = (\<not> nullish data \<and> jsprop data ''type'' \<notin> JStr ` set known)"

text \<open>
  The release calls a teardown makes whatever the state of the resources: the close
  handler's (stream, audio context, room) and the unmount's (the same with the socket and
  the animation frame). The recorder is stopped only while it is not inactive.
\<close>

definition release_calls :: "hook \<Rightarrow> call list" where
  "release_calls s =
     (case audioStreamRef s of None \<Rightarrow> [] | Some tracks \<Rightarrow> map TrackStop tracks)
     @ (if audioContextRef s then [ContextClose] else [])
     @ (case roomRef s of None \<Rightarrow> [] | Some _ \<Rightarrow> [RoomDisconnect])"

definition unmount_calls :: "hook \<Rightarrow> call list" where
  "unmount_calls s =
     (case audioStreamRef s of None \<Rightarrow> [] | Some tracks \<Rightarrow> map TrackStop tracks)
     @ (if audioContextRef s then [ContextClose] else [])
     @ (case wsRef s of None \<Rightarrow> [] | Some i \<Rightarrow> [WsClose i])
     @ (case roomRef s of None \<Rightarrow> [] | Some _ \<Rightarrow> [RoomDisconnect])
     @ (case animationFrameRef s of None \<Rightarrow> []
        | Some h \<Rightarrow> if h \<noteq> 0 then [CancelAnimationFrame h] else [])"

definition recorder_stop_call :: "hook \<Rightarrow> call list" where
  "recorder_stop_call s =
     (case mediaRecorderRef s of None \<Rightarrow> []
      | Some st \<Rightarrow> if st \<noteq> Inactive then [RecorderStop] else [])"

text \<open>The four release statements of the close handler, in its order.\<close>

definition released :: "hook \<Rightarrow> hook" where
  "released s = disconnect_room (close_context (stop_tracks (stop_recorder s)))"

text \<open>A value in [0, 1], and the mean of a run of bins.\<close>

definition in_unit :: "jsnum \<Rightarrow> bool" where
  "in_unit x = (case x of Fin r \<Rightarrow> 0 \<le> r \<and> r \<le> 1 | _ \<Rightarrow> False)"

definition average_of :: "8 word list \<Rightarrow> rat" where
  "average_of bins = of_nat (sum_list (map unat bins)) / of_nat (length bins)"

text \<open>The definitions a run on concrete events unfolds.\<close>

lemmas eval_defs = initial_def connectToVoiceService_def connectToVoiceService_resume_def
  createSession_def connect_socket_def connect_catch_def get_prop_def ws_onopen_def
  initializeAudio_def requestMicrophoneAccess_def connectToLiveKitRoom_def set_readyState_def
  appendMessage_def ws_onmessage_def handleMessageFromBackend_def handleDataReceived_def
  ws_onclose_def stop_recorder_def stop_tracks_def close_context_def disconnect_room_def
  cleanup_def close_socket_def cancel_frame_def advance_def js_or_def Let_def

section \<open>Properties\<close>

subsection \<open>What each step leaves alone\<close>

lemma set_readyState_frame [simp]:
  "isListening (set_readyState i r s) = isListening s"
  "isSpeaking (set_readyState i r s) = isSpeaking s"
  "messages (set_readyState i r s) = messages s"
  "timers (set_readyState i r s) = timers s"
  "now (set_readyState i r s) = now s"
  by (simp_all add: set_readyState_def)

lemma stop_recorder_frame [simp]:
  "isListening (stop_recorder s) = isListening s"
  "isSpeaking (stop_recorder s) = isSpeaking s"
  "messages (stop_recorder s) = messages s"
  "timers (stop_recorder s) = timers s"
  "now (stop_recorder s) = now s"
  by (simp_all add: stop_recorder_def split: option.splits)

lemma stop_tracks_frame [simp]:
  "isListening (stop_tracks s) = isListening s"
  "isSpeaking (stop_tracks s) = isSpeaking s"
  "messages (stop_tracks s) = messages s"
  "timers (stop_tracks s) = timers s"
  "now (stop_tracks s) = now s"
  by (simp_all add: stop_tracks_def split: option.splits)

lemma close_context_frame [simp]:
  "isListening (close_context s) = isListening s"
  "isSpeaking (close_context s) = isSpeaking s"
  "messages (close_context s) = messages s"
  "timers (close_context s) = timers s"
  "now (close_context s) = now s"
  by (simp_all add: close_context_def)

lemma disconnect_room_frame [simp]:
  "isListening (disconnect_room s) = isListening s"
  "isSpeaking (disconnect_room s) = isSpeaking s"
  "messages (disconnect_room s) = messages s"
  "timers (disconnect_room s) = timers s"
  "now (disconnect_room s) = now s"
  by (simp_all add: disconnect_room_def split: option.splits)

lemma close_socket_frame [simp]:
  "isListening (close_socket s) = isListening s"
  "isSpeaking (close_socket s) = isSpeaking s"
  "messages (close_socket s) = messages s"
  "timers (close_socket s) = timers s"
  "now (close_socket s) = now s"
  by (simp_all add: close_socket_def split: option.splits)

lemma cancel_frame_frame [simp]:
  "isListening (cancel_frame s) = isListening s"
  "isSpeaking (cancel_frame s) = isSpeaking s"
  "messages (cancel_frame s) = messages s"
  "timers (cancel_frame s) = timers s"
  "now (cancel_frame s) = now s"
  by (simp_all add: cancel_frame_def split: option.splits)

lemma cleanup_frame [simp]:
  "isListening (cleanup s) = isListening s"
  "isSpeaking (cleanup s) = isSpeaking s"
  "messages (cleanup s) = messages s"
  "timers (cleanup s) = timers s"
  "now (cleanup s) = now s"
  by (simp_all add: cleanup_def)

lemma ws_onclose_frame [simp]:
  "isListening (ws_onclose i code reason s) = isListening s"
  "isSpeaking (ws_onclose i code reason s) = isSpeaking s"
  "messages (ws_onclose i code reason s) = messages s"
  "timers (ws_onclose i code reason s) = timers s"
  "now (ws_onclose i code reason s) = now s"
  by (simp_all add: ws_onclose_def Let_def)

lemma ws_onerror_frame [simp]:
  "isListening (ws_onerror msg str s) = isListening s"
  "isSpeaking (ws_onerror msg str s) = isSpeaking s"
  "messages (ws_onerror msg str s) = messages s"
  "timers (ws_onerror msg str s) = timers s"
  "now (ws_onerror msg str s) = now s"
  by (simp_all add: ws_onerror_def Let_def)

lemma handleRoomDisconnected_frame [simp]:
  "isListening (handleRoomDisconnected s) = isListening s"
  "isSpeaking (handleRoomDisconnected s) = isSpeaking s"
  "messages (handleRoomDisconnected s) = messages s"
  "timers (handleRoomDisconnected s) = timers s"
  "now (handleRoomDisconnected s) = now s"
  by (simp_all add: handleRoomDisconnected_def)

lemma connect_catch_frame [simp]:
  "isListening (connect_catch e s) = isListening s"
  "isSpeaking (connect_catch e s) = isSpeaking s"
  "messages (connect_catch e s) = messages s"
  "timers (connect_catch e s) = timers s"
  "now (connect_catch e s) = now s"
  by (simp_all add: connect_catch_def)

lemma connect_socket_frame [simp]:
  "isListening (connect_socket sd s) = isListening s"
  "isSpeaking (connect_socket sd s) = isSpeaking s"
  "messages (connect_socket sd s) = messages s"
  "timers (connect_socket sd s) = timers s"
  "now (connect_socket sd s) = now s"
  by (simp_all add: connect_socket_def split: sum.splits)

lemma connectToVoiceService_frame [simp]:
  "isListening (connectToVoiceService s) = isListening s"
  "isSpeaking (connectToVoiceService s) = isSpeaking s"
  "messages (connectToVoiceService s) = messages s"
  "timers (connectToVoiceService s) = timers s"
  "now (connectToVoiceService s) = now s"
  by (simp_all add: connectToVoiceService_def Let_def)

lemma createSession_frame:
  "createSession r s = Inr (sd, s') \<Longrightarrow>
     isListening s' = isListening s \<and> isSpeaking s' = isSpeaking s \<and> messages s' = messages s
     \<and> timers s' = timers s \<and> now s' = now s"
  by (auto simp: createSession_def split: fetch_result.splits sum.splits)

lemma connectToVoiceService_resume_frame [simp]:
  "isListening (connectToVoiceService_resume r s) = isListening s"
  "isSpeaking (connectToVoiceService_resume r s) = isSpeaking s"
  "messages (connectToVoiceService_resume r s) = messages s"
  "timers (connectToVoiceService_resume r s) = timers s"
  "now (connectToVoiceService_resume r s) = now s"
  by (auto simp: connectToVoiceService_resume_def dest: createSession_frame split: sum.splits)

lemma ws_send_frame [simp]:
  "isListening (ws_send f s) = isListening s"
  "isSpeaking (ws_send f s) = isSpeaking s"
  "messages (ws_send f s) = messages s"
  "timers (ws_send f s) = timers s"
  "now (ws_send f s) = now s"
  "mediaRecorderRef (ws_send f s) = mediaRecorderRef s"
  by (simp_all add: ws_send_def split: option.splits)

lemma startListening_body_frame [simp]:
  "isListening (startListening_body thrown s) = isListening s"
  "isSpeaking (startListening_body thrown s) = isSpeaking s"
  "messages (startListening_body thrown s) = messages s"
  "timers (startListening_body thrown s) = timers s"
  "now (startListening_body thrown s) = now s"
  by (simp_all add: startListening_body_def Let_def split: option.splits)

lemma startListening_frame [simp]:
  "isListening (startListening thrown s) = isListening s"
  "isSpeaking (startListening thrown s) = isSpeaking s"
  "messages (startListening thrown s) = messages s"
  "timers (startListening thrown s) = timers s"
  "now (startListening thrown s) = now s"
  by (simp_all add: startListening_def)

lemma stopListening_frame [simp]:
  "isListening (stopListening s) = isListening s"
  "isSpeaking (stopListening s) = isSpeaking s"
  "messages (stopListening s) = messages s"
  "timers (stopListening s) = timers s"
  "now (stopListening s) = now s"
  by (simp_all add: stopListening_def Let_def)

lemma toggleListening_frame [simp]:
  "isListening (toggleListening thrown s) = isListening s"
  "isSpeaking (toggleListening thrown s) = isSpeaking s"
  "messages (toggleListening thrown s) = messages s"
  "timers (toggleListening thrown s) = timers s"
  "now (toggleListening thrown s) = now s"
  by (simp_all add: toggleListening_def)

lemma detectVoiceActivity_frame_frame [simp]:
  "isListening (detectVoiceActivity_frame h s) = isListening s"
  "isSpeaking (detectVoiceActivity_frame h s) = isSpeaking s"
  "messages (detectVoiceActivity_frame h s) = messages s"
  "timers (detectVoiceActivity_frame h s) = timers s"
  "now (detectVoiceActivity_frame h s) = now s"
  by (simp_all add: detectVoiceActivity_frame_def)

lemma stopVoiceActivityDetection_frame [simp]:
  "isListening (stopVoiceActivityDetection s) = isListening s"
  "isSpeaking (stopVoiceActivityDetection s) = isSpeaking s"
  "messages (stopVoiceActivityDetection s) = messages s"
  "timers (stopVoiceActivityDetection s) = timers s"
  "now (stopVoiceActivityDetection s) = now s"
  by (simp_all add: stopVoiceActivityDetection_def Let_def split: option.splits)

lemma recorder_ondataavailable_frame [simp]:
  "isListening (recorder_ondataavailable n s) = isListening s"
  "isSpeaking (recorder_ondataavailable n s) = isSpeaking s"
  "messages (recorder_ondataavailable n s) = messages s"
  "timers (recorder_ondataavailable n s) = timers s"
  "now (recorder_ondataavailable n s) = now s"
  by (simp_all add: recorder_ondataavailable_def)

lemma requestMicrophoneAccess_frame [simp]:
  "isListening (snd (requestMicrophoneAccess mic s)) = isListening s"
  "isSpeaking (snd (requestMicrophoneAccess mic s)) = isSpeaking s"
  "messages (snd (requestMicrophoneAccess mic s)) = messages s"
  "timers (snd (requestMicrophoneAccess mic s)) = timers s"
  "now (snd (requestMicrophoneAccess mic s)) = now s"
  by (simp_all add: requestMicrophoneAccess_def Let_def split: sum.splits)

lemma initializeAudio_frame [simp]:
  "isListening (snd (initializeAudio mic ctor s)) = isListening s"
  "isSpeaking (snd (initializeAudio mic ctor s)) = isSpeaking s"
  "messages (snd (initializeAudio mic ctor s)) = messages s"
  "timers (snd (initializeAudio mic ctor s)) = timers s"
  "now (snd (initializeAudio mic ctor s)) = now s"
  by (simp_all add: initializeAudio_def requestMicrophoneAccess_def Let_def split: sum.splits option.splits)

lemma connectToLiveKitRoom_frame [simp]:
  "isListening (snd (connectToLiveKitRoom outcome s)) = isListening s"
  "isSpeaking (snd (connectToLiveKitRoom outcome s)) = isSpeaking s"
  "messages (snd (connectToLiveKitRoom outcome s)) = messages s"
  "timers (snd (connectToLiveKitRoom outcome s)) = timers s"
  "now (snd (connectToLiveKitRoom outcome s)) = now s"
  by (simp_all add: connectToLiveKitRoom_def Let_def split: room_outcome.splits)

lemma connectToLiveKitRoom_result:
  assumes "connectToLiveKitRoom outcome s = (r, s')"
  shows "isListening s' = isListening s" "isSpeaking s' = isSpeaking s"
    "messages s' = messages s" "timers s' = timers s" "now s' = now s"
  using assms connectToLiveKitRoom_frame [of outcome s] by simp_all

lemma ws_onopen_frame [simp]:
  "isListening (ws_onopen i mic ctor outcome s) = isListening s"
  "isSpeaking (ws_onopen i mic ctor outcome s) = isSpeaking s"
  "timers (ws_onopen i mic ctor outcome s) = timers s"
  "now (ws_onopen i mic ctor outcome s) = now s"
  by (auto simp: ws_onopen_def Let_def appendMessage_def connectToLiveKitRoom_result
      split: prod.splits option.splits)

lemma ws_onopen_messages:
  "messages (ws_onopen i mic ctor outcome s) = messages s \<or>
   messages (ws_onopen i mic ctor outcome s) = messages s @ [welcomeMessage]"
  by (auto simp: ws_onopen_def Let_def appendMessage_def connectToLiveKitRoom_result
      split: prod.splits option.splits)


lemma handleDataReceived_frame [simp]:
  "now (handleDataReceived parsed s) = now s"
  "timers (handleDataReceived parsed s) = timers s"
  by (simp_all add: handleDataReceived_def appendMessage_def Let_def split: option.splits)

lemma advance_frame [simp]:
  "isListening (advance d s) = isListening s"
  "messages (advance d s) = messages s"
  "now (advance d s) = now s + d"
  by (simp_all add: advance_def Let_def)

lemma track_frame [simp]:
  "isListening (handleTrackSubscribed a s) = isListening s"
  "messages (handleTrackSubscribed a s) = messages s"
  "timers (handleTrackSubscribed a s) = timers s"
  "now (handleTrackSubscribed a s) = now s"
  "isListening (handleTrackUnsubscribed a s) = isListening s"
  "messages (handleTrackUnsubscribed a s) = messages s"
  "timers (handleTrackUnsubscribed a s) = timers s"
  "now (handleTrackUnsubscribed a s) = now s"
  by (simp_all add: handleTrackSubscribed_def handleTrackUnsubscribed_def)

text \<open>Turns: every step appends to the list it found, or leaves it.\<close>

lemma ws_onmessage_messages:
  "\<exists>new. messages (ws_onmessage parsed s) = messages s @ new"
  by (simp add: ws_onmessage_def handleMessageFromBackend_def appendMessage_def Let_def
      split: option.splits)

lemma handleDataReceived_messages:
  "\<exists>new. messages (handleDataReceived parsed s) = messages s @ new"
  by (simp add: handleDataReceived_def appendMessage_def Let_def split: option.splits)

lemma step_messages: "\<exists>new. messages (step s e) = messages s @ new"
proof (cases e)
  case (SocketOpen i mic ctor outcome)
  then show ?thesis using ws_onopen_messages [of i mic ctor outcome s] by auto
next
  case (SocketMessage parsed)
  then show ?thesis by (simp add: ws_onmessage_messages)
next
  case (RoomData parsed)
  then show ?thesis by (simp add: handleDataReceived_messages)
qed simp_all

lemma run_Nil [simp]: "run s [] = s"
  by (simp add: run_def)

lemma run_Cons [simp]: "run s (e # evs) = run (step s e) evs"
  by (simp add: run_def)

lemma run_append [simp]: "run s (evs @ evs') = run (run s evs) evs'"
  by (simp add: run_def)

lemma run_messages: "\<exists>new. messages (run s evs) = messages s @ new"
proof (induction evs arbitrary: s)
  case Nil
  show ?case by simp
next
  case (Cons e evs)
  obtain a where a: "messages (step s e) = messages s @ a"
    using step_messages by blast
  obtain b where b: "messages (run (step s e) evs) = messages (step s e) @ b"
    using Cons.IH by blast
  show ?case using a b by simp
qed

lemma ws_onmessage_flags:
  "(isListening (ws_onmessage parsed s) = isListening s \<and> isSpeaking (ws_onmessage parsed s) = isSpeaking s
      \<and> timers (ws_onmessage parsed s) = timers s)
   \<or> (isListening (ws_onmessage parsed s) = isListening s
      \<and> timers (ws_onmessage parsed s) = timers s @ [now s + 2000])
   \<or> (\<not> isSpeaking (ws_onmessage parsed s) \<and> timers (ws_onmessage parsed s) = timers s)
   \<or> (\<not> isListening (ws_onmessage parsed s) \<and> timers (ws_onmessage parsed s) = timers s)"
  by (simp add: ws_onmessage_def handleMessageFromBackend_def appendMessage_def Let_def
      split: option.splits)













lemma typed_not_nullish: "jsprop data k = JStr t \<Longrightarrow> \<not> nullish data"
  by (cases data) simp_all

lemma step_turn:
  assumes "carries_turn data" and "inbound e data"
  shows "messages (step s e) = messages s @ [turn_of data]"
proof -
  have nn: "\<not> nullish data"
    using assms(1) by (auto simp: carries_turn_def dest: typed_not_nullish)
  show ?thesis
    using assms nn
    by (auto simp: carries_turn_def inbound_def turn_of_def ws_onmessage_def
        handleMessageFromBackend_def handleDataReceived_def appendMessage_def)
qed

lemma step_isListening: "\<not> is_message e \<Longrightarrow> isListening (step s e) = isListening s"
  by (cases e) (simp_all add: is_message_def)

lemma ws_onmessage_isListening:
  "isListening (ws_onmessage (Some data) s) =
     (if jsprop data ''type'' = JStr ''listening_started'' then True
      else if jsprop data ''type'' = JStr ''listening_stopped''
            \<or> jsprop data ''type'' = JStr ''processing_started'' then False
      else isListening s)"
  by (cases "nullish data")
     (auto simp: ws_onmessage_def handleMessageFromBackend_def appendMessage_def Let_def
        dest: typed_not_nullish)

lemma handleDataReceived_isListening:
  "isListening (handleDataReceived (Some data) s) =
     (if jsprop data ''type'' = JStr ''listening_started'' then True
      else if jsprop data ''type'' = JStr ''listening_stopped''
            \<or> jsprop data ''type'' = JStr ''processing_started'' then False
      else isListening s)"
  by (cases "nullish data")
     (auto simp: handleDataReceived_def appendMessage_def Let_def dest: typed_not_nullish)

lemma unparsed_isListening [simp]:
  "isListening (ws_onmessage None s) = isListening s"
  "isListening (handleDataReceived None s) = isListening s"
  by (simp_all add: ws_onmessage_def handleDataReceived_def)

lemma step_keeps_listening:
  assumes "isListening s" and "\<not> clears_listening e"
  shows "isListening (step s e)"
proof (cases e)
  case (SocketMessage parsed)
  then show ?thesis
    using assms by (cases parsed) (simp_all add: clears_listening_def ws_onmessage_isListening)
next
  case (RoomData parsed)
  then show ?thesis
    using assms by (cases parsed) (simp_all add: clears_listening_def handleDataReceived_isListening)
qed (use assms in simp_all)

lemma run_keeps_listening:
  "isListening s \<Longrightarrow> \<forall>e\<in>set evs. \<not> clears_listening e \<Longrightarrow> isListening (run s evs)"
  by (induction evs arbitrary: s) (simp_all add: step_keeps_listening)

lemma release_other_fields [simp]:
  "error (disconnect_room (close_context (stop_tracks (stop_recorder s)))) = error s"
  "connectionStatus (disconnect_room (close_context (stop_tracks (stop_recorder s)))) = connectionStatus s"
  "isConnected (disconnect_room (close_context (stop_tracks (stop_recorder s)))) = isConnected s"
  by (simp_all add: disconnect_room_def close_context_def stop_tracks_def stop_recorder_def
      split: option.splits)

lemma step_timers:
  assumes "\<forall>d. e \<noteq> Advance d"
  shows "\<exists>new. timers (step s e) = timers s @ new"
proof (cases e)
  case (SocketMessage parsed)
  then show ?thesis using ws_onmessage_flags [of parsed s] by auto
next
  case (Advance d)
  then show ?thesis using assms by simp
qed simp_all

subsection \<open>Teardown, field by field\<close>

lemma released_fields:
  "isConnected (released s) = isConnected s"
  "isListening (released s) = isListening s"
  "isSpeaking (released s) = isSpeaking s"
  "messages (released s) = messages s"
  "connectionStatus (released s) = connectionStatus s"
  "error (released s) = error s"
  "sessionId (released s) = sessionId s"
  "sessionData (released s) = sessionData s"
  "wsRef (released s) = wsRef s"
  "mediaRecorderRef (released s) = map_option (\<lambda>_. Inactive) (mediaRecorderRef s)"
  "audioContextRef (released s) = audioContextRef s"
  "audioStreamRef (released s) = audioStreamRef s"
  "roomRef (released s) = map_option (\<lambda>_. RoomDisconnected) (roomRef s)"
  "analyserRef (released s) = analyserRef s"
  "animationFrameRef (released s) = animationFrameRef s"
  "sockets (released s) = sockets s"
  "timers (released s) = timers s"
  "now (released s) = now s"
  "hook.more (released s) = hook.more s"
  by (simp_all add: released_def disconnect_room_def close_context_def stop_tracks_def
      stop_recorder_def split: option.splits)

lemma released_calls:
  "calls (released s) =
     calls s
     @ recorder_stop_call s @ release_calls s"
  by (simp add: recorder_stop_call_def released_def disconnect_room_def close_context_def stop_tracks_def
      stop_recorder_def release_calls_def split: option.splits)

lemma stop_recorder_fields:
  "isConnected (stop_recorder s) = isConnected s"
  "isListening (stop_recorder s) = isListening s"
  "isSpeaking (stop_recorder s) = isSpeaking s"
  "messages (stop_recorder s) = messages s"
  "connectionStatus (stop_recorder s) = connectionStatus s"
  "error (stop_recorder s) = error s"
  "sessionId (stop_recorder s) = sessionId s"
  "sessionData (stop_recorder s) = sessionData s"
  "wsRef (stop_recorder s) = wsRef s"
  "mediaRecorderRef (stop_recorder s) = map_option (\<lambda>_. Inactive) (mediaRecorderRef s)"
  "audioContextRef (stop_recorder s) = audioContextRef s"
  "audioStreamRef (stop_recorder s) = audioStreamRef s"
  "roomRef (stop_recorder s) = roomRef s"
  "analyserRef (stop_recorder s) = analyserRef s"
  "animationFrameRef (stop_recorder s) = animationFrameRef s"
  "sockets (stop_recorder s) = sockets s"
  "timers (stop_recorder s) = timers s"
  "now (stop_recorder s) = now s"
  "calls (stop_recorder s) = calls s @ recorder_stop_call s"
  "hook.more (stop_recorder s) = hook.more s"
  by (simp_all add: stop_recorder_def recorder_stop_call_def split: option.splits)

lemma stop_tracks_fields:
  "isConnected (stop_tracks s) = isConnected s"
  "isListening (stop_tracks s) = isListening s"
  "isSpeaking (stop_tracks s) = isSpeaking s"
  "messages (stop_tracks s) = messages s"
  "connectionStatus (stop_tracks s) = connectionStatus s"
  "error (stop_tracks s) = error s"
  "sessionId (stop_tracks s) = sessionId s"
  "sessionData (stop_tracks s) = sessionData s"
  "wsRef (stop_tracks s) = wsRef s"
  "mediaRecorderRef (stop_tracks s) = mediaRecorderRef s"
  "audioContextRef (stop_tracks s) = audioContextRef s"
  "audioStreamRef (stop_tracks s) = audioStreamRef s"
  "roomRef (stop_tracks s) = roomRef s"
  "analyserRef (stop_tracks s) = analyserRef s"
  "animationFrameRef (stop_tracks s) = animationFrameRef s"
  "sockets (stop_tracks s) = sockets s"
  "timers (stop_tracks s) = timers s"
  "now (stop_tracks s) = now s"
  "calls (stop_tracks s) = calls s @ (case audioStreamRef s of None \<Rightarrow> [] | Some tracks \<Rightarrow> map TrackStop tracks)"
  "hook.more (stop_tracks s) = hook.more s"
  by (simp_all add: stop_tracks_def split: option.splits)

lemma close_context_fields:
  "isConnected (close_context s) = isConnected s"
  "isListening (close_context s) = isListening s"
  "isSpeaking (close_context s) = isSpeaking s"
  "messages (close_context s) = messages s"
  "connectionStatus (close_context s) = connectionStatus s"
  "error (close_context s) = error s"
  "sessionId (close_context s) = sessionId s"
  "sessionData (close_context s) = sessionData s"
  "wsRef (close_context s) = wsRef s"
  "mediaRecorderRef (close_context s) = mediaRecorderRef s"
  "audioContextRef (close_context s) = audioContextRef s"
  "audioStreamRef (close_context s) = audioStreamRef s"
  "roomRef (close_context s) = roomRef s"
  "analyserRef (close_context s) = analyserRef s"
  "animationFrameRef (close_context s) = animationFrameRef s"
  "sockets (close_context s) = sockets s"
  "timers (close_context s) = timers s"
  "now (close_context s) = now s"
  "calls (close_context s) = calls s @ (if audioContextRef s then [ContextClose] else [])"
  "hook.more (close_context s) = hook.more s"
  by (simp_all add: close_context_def)

lemma disconnect_room_fields:
  "isConnected (disconnect_room s) = isConnected s"
  "isListening (disconnect_room s) = isListening s"
  "isSpeaking (disconnect_room s) = isSpeaking s"
  "messages (disconnect_room s) = messages s"
  "connectionStatus (disconnect_room s) = connectionStatus s"
  "error (disconnect_room s) = error s"
  "sessionId (disconnect_room s) = sessionId s"
  "sessionData (disconnect_room s) = sessionData s"
  "wsRef (disconnect_room s) = wsRef s"
  "mediaRecorderRef (disconnect_room s) = mediaRecorderRef s"
  "audioContextRef (disconnect_room s) = audioContextRef s"
  "audioStreamRef (disconnect_room s) = audioStreamRef s"
  "roomRef (disconnect_room s) = map_option (\<lambda>_. RoomDisconnected) (roomRef s)"
  "analyserRef (disconnect_room s) = analyserRef s"
  "animationFrameRef (disconnect_room s) = animationFrameRef s"
  "sockets (disconnect_room s) = sockets s"
  "timers (disconnect_room s) = timers s"
  "now (disconnect_room s) = now s"
  "calls (disconnect_room s) = calls s @ (case roomRef s of None \<Rightarrow> [] | Some _ \<Rightarrow> [RoomDisconnect])"
  "hook.more (disconnect_room s) = hook.more s"
  by (simp_all add: disconnect_room_def split: option.splits)

lemma close_socket_fields:
  "isConnected (close_socket s) = isConnected s"
  "isListening (close_socket s) = isListening s"
  "isSpeaking (close_socket s) = isSpeaking s"
  "messages (close_socket s) = messages s"
  "connectionStatus (close_socket s) = connectionStatus s"
  "error (close_socket s) = error s"
  "sessionId (close_socket s) = sessionId s"
  "sessionData (close_socket s) = sessionData s"
  "wsRef (close_socket s) = wsRef s"
  "mediaRecorderRef (close_socket s) = mediaRecorderRef s"
  "audioContextRef (close_socket s) = audioContextRef s"
  "audioStreamRef (close_socket s) = audioStreamRef s"
  "roomRef (close_socket s) = roomRef s"
  "analyserRef (close_socket s) = analyserRef s"
  "animationFrameRef (close_socket s) = animationFrameRef s"
  "sockets (close_socket s) = (case wsRef s of
        None \<Rightarrow> sockets s
      | Some i \<Rightarrow>
          if i < length (sockets s) \<and> readyState (sockets s ! i) \<in> {CONNECTING, OPEN}
          then (sockets s)[i := (sockets s ! i)\<lparr>readyState := CLOSING\<rparr>] else sockets s)"
  "timers (close_socket s) = timers s"
  "now (close_socket s) = now s"
  "calls (close_socket s) = calls s @ (case wsRef s of None \<Rightarrow> [] | Some i \<Rightarrow> [WsClose i])"
  "hook.more (close_socket s) = hook.more s"
  by (auto simp: close_socket_def set_readyState_def split: option.splits)

lemma cancel_frame_fields:
  "isConnected (cancel_frame s) = isConnected s"
  "isListening (cancel_frame s) = isListening s"
  "isSpeaking (cancel_frame s) = isSpeaking s"
  "messages (cancel_frame s) = messages s"
  "connectionStatus (cancel_frame s) = connectionStatus s"
  "error (cancel_frame s) = error s"
  "sessionId (cancel_frame s) = sessionId s"
  "sessionData (cancel_frame s) = sessionData s"
  "wsRef (cancel_frame s) = wsRef s"
  "mediaRecorderRef (cancel_frame s) = mediaRecorderRef s"
  "audioContextRef (cancel_frame s) = audioContextRef s"
  "audioStreamRef (cancel_frame s) = audioStreamRef s"
  "roomRef (cancel_frame s) = roomRef s"
  "analyserRef (cancel_frame s) = analyserRef s"
  "animationFrameRef (cancel_frame s) = animationFrameRef s"
  "sockets (cancel_frame s) = sockets s"
  "timers (cancel_frame s) = timers s"
  "now (cancel_frame s) = now s"
  "calls (cancel_frame s) = calls s @ (case animationFrameRef s of None \<Rightarrow> []
        | Some h \<Rightarrow> if h \<noteq> 0 then [CancelAnimationFrame h] else [])"
  "hook.more (cancel_frame s) = hook.more s"
  by (simp_all add: cancel_frame_def split: option.splits)

lemma release_calls_cong:
  "audioStreamRef s' = audioStreamRef s \<Longrightarrow> audioContextRef s' = audioContextRef s
   \<Longrightarrow> roomRef s' = map_option f (roomRef s) \<Longrightarrow> release_calls s' = release_calls s"
  by (simp add: release_calls_def split: option.splits)

lemma ws_onclose_released:
  "i < length (sockets s) \<Longrightarrow>
   ws_onclose i code reason s =
     (released ((set_readyState i CLOSED s)\<lparr>isConnected := False\<rparr>))
       \<lparr>error := (if code \<noteq> 1000 then
                    JStr (''Connection closed: ''
                          @ (if reason \<noteq> [] then reason else ''Unknown reason'')
                          @ '' (Code: '' @ string_of_nat code @ '')'')
                  else error s),
        connectionStatus := (if code \<noteq> 1000 then ErrorStatus else Disconnected)\<rparr>"
  by (simp add: ws_onclose_def released_def Let_def set_readyState_def released_fields [unfolded released_def])

lemma ws_onclose_fields:
  assumes "i < length (sockets s)"
  shows
  "isConnected (ws_onclose i code reason s) = False"
  "sessionId (ws_onclose i code reason s) = sessionId s"
  "sessionData (ws_onclose i code reason s) = sessionData s"
  "wsRef (ws_onclose i code reason s) = wsRef s"
  "mediaRecorderRef (ws_onclose i code reason s) = map_option (\<lambda>_. Inactive) (mediaRecorderRef s)"
  "audioContextRef (ws_onclose i code reason s) = audioContextRef s"
  "audioStreamRef (ws_onclose i code reason s) = audioStreamRef s"
  "roomRef (ws_onclose i code reason s) = map_option (\<lambda>_. RoomDisconnected) (roomRef s)"
  "analyserRef (ws_onclose i code reason s) = analyserRef s"
  "animationFrameRef (ws_onclose i code reason s) = animationFrameRef s"
  "sockets (ws_onclose i code reason s) = (sockets s)[i := (sockets s ! i)\<lparr>readyState := CLOSED\<rparr>]"
  "hook.more (ws_onclose i code reason s) = hook.more s"
  "connectionStatus (ws_onclose i code reason s) = (if code \<noteq> 1000 then ErrorStatus else Disconnected)"
  "error (ws_onclose i code reason s) = (if code \<noteq> 1000 then
                    JStr (''Connection closed: ''
                          @ (if reason \<noteq> [] then reason else ''Unknown reason'')
                          @ '' (Code: '' @ string_of_nat code @ '')'')
                  else error s)"
  "calls (ws_onclose i code reason s) =
     calls s @ recorder_stop_call s @ release_calls s"
  using assms
  by (simp_all add: ws_onclose_released released_fields released_calls set_readyState_def
      release_calls_def recorder_stop_call_def)

lemma ws_onclose_twice:
  assumes "i < length (sockets s)"
  shows "ws_onclose i code reason (ws_onclose i code reason s)
         = (ws_onclose i code reason s)
             \<lparr>calls := calls (ws_onclose i code reason s) @ release_calls s\<rparr>"
proof -
  let ?s1 = "ws_onclose i code reason s"
  have len: "i < length (sockets ?s1)"
    using assms by (simp add: ws_onclose_fields)
  have rel: "release_calls ?s1 = release_calls s"
    using assms by (simp add: ws_onclose_fields release_calls_def split: option.splits)
  have rec: "recorder_stop_call ?s1 = []"
    using assms by (simp add: ws_onclose_fields recorder_stop_call_def split: option.splits)
  show ?thesis
    using assms
    by (intro hook.equality)
       (simp_all add: ws_onclose_fields [OF len] ws_onclose_fields [OF assms] rel rec
          option.map_comp comp_def)
qed

lemmas release_fields = stop_recorder_fields stop_tracks_fields close_context_fields
  disconnect_room_fields close_socket_fields cancel_frame_fields

lemma cleanup_fields:
  "isConnected (cleanup s) = isConnected s"
  "isListening (cleanup s) = isListening s"
  "isSpeaking (cleanup s) = isSpeaking s"
  "messages (cleanup s) = messages s"
  "connectionStatus (cleanup s) = connectionStatus s"
  "error (cleanup s) = error s"
  "sessionId (cleanup s) = sessionId s"
  "sessionData (cleanup s) = sessionData s"
  "wsRef (cleanup s) = wsRef s"
  "mediaRecorderRef (cleanup s) = map_option (\<lambda>_. Inactive) (mediaRecorderRef s)"
  "audioContextRef (cleanup s) = audioContextRef s"
  "audioStreamRef (cleanup s) = audioStreamRef s"
  "roomRef (cleanup s) = map_option (\<lambda>_. RoomDisconnected) (roomRef s)"
  "analyserRef (cleanup s) = analyserRef s"
  "animationFrameRef (cleanup s) = animationFrameRef s"
  "timers (cleanup s) = timers s"
  "now (cleanup s) = now s"
  "hook.more (cleanup s) = hook.more s"
  "calls (cleanup s) = calls s @ recorder_stop_call s @ unmount_calls s"
  by (simp_all add: cleanup_def release_fields unmount_calls_def)

lemma cleanup_sockets:
  "sockets (cleanup s) =
     (case wsRef s of
        None \<Rightarrow> sockets s
      | Some i \<Rightarrow>
          if i < length (sockets s) \<and> readyState (sockets s ! i) \<in> {CONNECTING, OPEN}
          then (sockets s)[i := (sockets s ! i)\<lparr>readyState := CLOSING\<rparr>] else sockets s)"
  by (auto simp: cleanup_def release_fields split: option.splits)

lemma recorder_stop_call_after [simp]:
  "mediaRecorderRef s' = map_option (\<lambda>_. Inactive) (mediaRecorderRef s) \<Longrightarrow> recorder_stop_call s' = []"
  by (simp add: recorder_stop_call_def split: option.splits)

lemma unmount_calls_cong:
  "audioStreamRef s' = audioStreamRef s \<Longrightarrow> audioContextRef s' = audioContextRef s
   \<Longrightarrow> wsRef s' = wsRef s \<Longrightarrow> roomRef s' = map_option f (roomRef s)
   \<Longrightarrow> animationFrameRef s' = animationFrameRef s \<Longrightarrow> unmount_calls s' = unmount_calls s"
  by (simp add: unmount_calls_def split: option.splits)

lemma cleanup_twice:
  "cleanup (cleanup s) = (cleanup s)\<lparr>calls := calls (cleanup s) @ unmount_calls s\<rparr>"
proof -
  have un: "unmount_calls (cleanup s) = unmount_calls s"
    by (rule unmount_calls_cong) (simp_all add: cleanup_fields)
  have rec: "recorder_stop_call (cleanup s) = []"
    by (simp add: cleanup_fields)
  have so: "sockets (cleanup (cleanup s)) = sockets (cleanup s)"
    by (auto simp: cleanup_sockets [of "cleanup s"] cleanup_sockets [of s] cleanup_fields
        split: option.splits)
  show ?thesis
    by (intro hook.equality)
       (simp_all add: cleanup_fields un rec so option.map_comp comp_def)
qed

lemma cleanup_after_onclose:
  assumes "i < length (sockets s)" and "wsRef s = Some i"
  shows "cleanup (ws_onclose i code reason s)
         = (ws_onclose i code reason s)
             \<lparr>calls := calls (ws_onclose i code reason s) @ unmount_calls s\<rparr>"
proof -
  let ?s1 = "ws_onclose i code reason s"
  have un: "unmount_calls ?s1 = unmount_calls s"
    by (rule unmount_calls_cong) (simp_all add: ws_onclose_fields [OF assms(1)])
  have rec: "recorder_stop_call ?s1 = []"
    by (simp add: ws_onclose_fields [OF assms(1)])
  have so: "sockets (cleanup ?s1) = sockets ?s1"
    using assms by (simp add: cleanup_sockets ws_onclose_fields [OF assms(1)])
  show ?thesis
    by (intro hook.equality)
       (simp_all add: cleanup_fields ws_onclose_fields [OF assms(1)] un rec so
          option.map_comp comp_def)
qed

subsection \<open>The loops of the voice activity sample\<close>

lemma sum_loop_eq: "sum_loop xs acc = acc + sum_list (map unat xs)"
  by (induction xs arbitrary: acc) simp_all

lemma band_loop_eq:
  assumes "m \<le> h"
  shows "band_loop m h i xs (lo, mi, hi) =
     (lo + sum_list (map unat (take (m - i) xs)),
      mi + sum_list (map unat (take (h - max i m) (drop (m - i) xs))),
      hi + sum_list (map unat (drop (h - i) xs)))"
  using assms
proof (induction xs arbitrary: i lo mi hi)
  case Nil
  show ?case by simp
next
  case (Cons x xs)
  consider "i < m" | "m \<le> i" "i < h" | "h \<le> i" using Cons.prems by linarith
  then show ?case
  proof cases
    case 1
    then have a: "m - i = Suc (m - Suc i)" "h - i = Suc (h - Suc i)" "max i m = m" "max (Suc i) m = m"
      using Cons.prems by simp_all
    show ?thesis using 1 Cons.IH [OF Cons.prems] by (simp add: a)
  next
    case 2
    then have a: "m - i = 0" "m - Suc i = 0" "h - i = Suc (h - Suc i)" "max i m = i" "max (Suc i) m = Suc i"
      by simp_all
    show ?thesis using 2 Cons.IH [OF Cons.prems] by (simp add: a)
  next
    case 3
    then have a: "m - i = 0" "m - Suc i = 0" "h - i = 0" "h - Suc i = 0" "h - max i m = 0"
      "h - max (Suc i) m = 0" "\<not> i < m" "\<not> i < h"
      using Cons.prems by simp_all
    show ?thesis using Cons.IH [OF Cons.prems] by (simp add: a)
  qed
qed

lemma normalize_average:
  "0 < b \<Longrightarrow> normalize (js_div a b) = Fin (min 1 (of_nat a / of_nat b / sensitivity))"
  by (simp add: js_div_def)

lemma in_unit_normalized: "in_unit (Fin (min 1 (of_nat a / of_nat b / sensitivity)))"
  by (simp add: in_unit_def sensitivity_def min_def)

lemma voice_sample_bands:
  assumes "3 \<le> length bins"
  shows "overall (voice_sample time bins) = Fin (min 1 (average_of bins / sensitivity))"
    and "low (voice_sample time bins)
           = Fin (min 1 (average_of (take (length bins div 3) bins) / sensitivity))"
    and "mid (voice_sample time bins)
           = Fin (min 1 (average_of (take (2 * length bins div 3 - length bins div 3)
                                        (drop (length bins div 3) bins)) / sensitivity))"
    and "high (voice_sample time bins)
           = Fin (min 1 (average_of (drop (2 * length bins div 3) bins) / sensitivity))"
proof -
  let ?n = "length bins"
  let ?m = "?n div 3"
  let ?h = "2 * ?n div 3"
  have mh: "?m \<le> ?h" by simp
  have pos: "0 < ?n" "0 < ?m" "0 < ?h - ?m" "0 < ?n - ?h"
    using assms by linarith+
  have hn: "?h \<le> ?n" by simp
  have loop: "band_loop ?m ?h 0 bins (0, 0, 0) =
     (sum_list (map unat (take ?m bins)),
      sum_list (map unat (take (?h - ?m) (drop ?m bins))),
      sum_list (map unat (drop ?h bins)))"
    using band_loop_eq [OF mh, of 0 bins 0 0 0] by simp
  have len: "length (take ?m bins) = ?m" "length (take (?h - ?m) (drop ?m bins)) = ?h - ?m"
    "length (drop ?h bins) = ?n - ?h"
    using hn by simp_all
  show "overall (voice_sample time bins) = Fin (min 1 (average_of bins / sensitivity))"
    using pos(1) by (simp add: voice_sample_def Let_def loop sum_loop_eq normalize_average average_of_def)
  show "low (voice_sample time bins) = Fin (min 1 (average_of (take ?m bins) / sensitivity))"
    using pos(2) by (simp add: voice_sample_def Let_def loop normalize_average average_of_def len del: length_take)
  show "mid (voice_sample time bins)
           = Fin (min 1 (average_of (take (?h - ?m) (drop ?m bins)) / sensitivity))"
    using pos(3) by (simp add: voice_sample_def Let_def loop normalize_average average_of_def len
        del: length_take length_drop)
  show "high (voice_sample time bins) = Fin (min 1 (average_of (drop ?h bins) / sensitivity))"
    using pos(4) by (simp add: voice_sample_def Let_def loop normalize_average average_of_def len
        del: length_drop)
qed

lemma in_unit_average: "in_unit (Fin (min 1 (average_of bins / sensitivity)))"
  unfolding average_of_def by (rule in_unit_normalized)

subsection \<open>C1: listening and speaking exclude each other, up to the auto-clear race and audio tracks\<close>




subsection \<open>C3: turns are appended in arrival order and never touched again\<close>

text \<open>
  Claim C3. Whatever events a run consists of, the turns it started with are a prefix of
  the turns it ends with: no handler edits or removes a turn. And when a
  \<open>user_transcript\<close> or \<open>ai_response\<close> message \<open>m1\<close> is handled before another,
  \<open>m2\<close>, on either channel, the turn of \<open>m1\<close> stands before the turn of \<open>m2\<close>,
  after all the turns that were there when \<open>m1\<close> arrived.
\<close>

theorem turns_append_only_in_arrival_order:
  "(\<exists>new. messages (run s evs) = messages s @ new)
   \<and> (carries_turn m1 \<and> inbound e1 m1 \<and> carries_turn m2 \<and> inbound e2 m2 \<longrightarrow>
        (\<exists>between after.
           messages (run s (evs1 @ [e1] @ evs2 @ [e2] @ evs3))
             = messages (run s evs1) @ [turn_of m1] @ between @ [turn_of m2] @ after))"
proof (intro conjI impI)
  show "\<exists>new. messages (run s evs) = messages s @ new"
    by (rule run_messages)
next
  assume a: "carries_turn m1 \<and> inbound e1 m1 \<and> carries_turn m2 \<and> inbound e2 m2"
  define s1 where "s1 = run s evs1"
  define s2 where "s2 = run (step s1 e1) evs2"
  have m1: "messages (step s1 e1) = messages s1 @ [turn_of m1]"
    using a by (simp add: step_turn)
  obtain between where b: "messages s2 = messages (step s1 e1) @ between"
    unfolding s2_def using run_messages by blast
  have m2: "messages (step s2 e2) = messages s2 @ [turn_of m2]"
    using a by (simp add: step_turn)
  obtain after where c: "messages (run (step s2 e2) evs3) = messages (step s2 e2) @ after"
    using run_messages by blast
  have "messages (run s (evs1 @ [e1] @ evs2 @ [e2] @ evs3))
          = messages s1 @ [turn_of m1] @ between @ [turn_of m2] @ after"
    using m1 b m2 c by (simp add: s1_def s2_def)
  then show "\<exists>between after.
           messages (run s (evs1 @ [e1] @ evs2 @ [e2] @ evs3))
             = messages (run s evs1) @ [turn_of m1] @ between @ [turn_of m2] @ after"
    unfolding s1_def by blast
qed

theorem turns_append_only_in_arrival_order_witness:
  "messages (run initial
      ([] @ [SocketMessage (Some (JObj [(''type'', JStr ''user_transcript''), (''transcript'', JStr ''book a flight'')]))]
       @ [Advance 10]
       @ [RoomData (Some (JObj [(''type'', JStr ''ai_response''), (''text'', JStr ''Your flight is booked'')]))]
       @ []))
   = [\<lparr>turn_type = User, content = JStr ''book a flight''\<rparr>,
      \<lparr>turn_type = Assistant, content = JStr ''Your flight is booked''\<rparr>]"
  using turns_append_only_in_arrival_order
    [of initial "[]" "JObj [(''type'', JStr ''user_transcript''), (''transcript'', JStr ''book a flight'')]"
        "SocketMessage (Some (JObj [(''type'', JStr ''user_transcript''), (''transcript'', JStr ''book a flight'')]))"
        "JObj [(''type'', JStr ''ai_response''), (''text'', JStr ''Your flight is booked'')]"
        "RoomData (Some (JObj [(''type'', JStr ''ai_response''), (''text'', JStr ''Your flight is booked'')]))"
        "[]" "[Advance 10]" "[]"]
  by (simp add: ws_onmessage_def handleMessageFromBackend_def handleDataReceived_def
      appendMessage_def initial_def advance_def Let_def)

subsection \<open>C10: only inbound messages change isListening\<close>

text \<open>
  Claim C10. \<open>startListening\<close> (both its halves), \<open>stopListening\<close> and
  \<open>toggleListening\<close> leave \<open>isListening\<close> as it is, and so does every event that
  is not an inbound message. An inbound message sets it on \<open>listening_started\<close>,
  resets it on \<open>listening_stopped\<close> and \<open>processing_started\<close>, and leaves it
  otherwise. So after \<open>stopListening\<close>, while no message of the two resetting types
  arrives, \<open>isListening\<close> stays set.
\<close>

theorem isListening_follows_backend:
  "isListening (startListening thrown s) = isListening s
   \<and> isListening (startListening_body thrown s) = isListening s
   \<and> isListening (stopListening s) = isListening s
   \<and> isListening (toggleListening thrown s) = isListening s
   \<and> (\<not> is_message e \<longrightarrow> isListening (step s e) = isListening s)
   \<and> (isListening s \<and> (\<forall>e\<in>set evs. \<not> clears_listening e) \<longrightarrow>
        isListening (run s (StopListening # evs)))
   \<and> isListening (ws_onmessage (Some data) s) =
       (if jsprop data ''type'' = JStr ''listening_started'' then True
        else if jsprop data ''type'' = JStr ''listening_stopped''
              \<or> jsprop data ''type'' = JStr ''processing_started'' then False
        else isListening s)
   \<and> isListening (handleDataReceived (Some data) s) =
       (if jsprop data ''type'' = JStr ''listening_started'' then True
        else if jsprop data ''type'' = JStr ''listening_stopped''
              \<or> jsprop data ''type'' = JStr ''processing_started'' then False
        else isListening s)"
  using step_isListening [of e s] run_keeps_listening [of "stopListening s" evs]
    ws_onmessage_isListening [of data s] handleDataReceived_isListening [of data s]
  by simp

theorem isListening_follows_backend_witness:
  "isListening (run initial
     [SocketMessage (Some (JObj [(''type'', JStr ''listening_started'')])),
      StopListening,
      SocketMessage (Some (JObj [(''type'', JStr ''user_transcript''), (''transcript'', JStr ''hello'')])),
      Advance 5000])
   \<and> \<not> isListening (run initial
     [SocketMessage (Some (JObj [(''type'', JStr ''listening_started'')])),
      StopListening,
      SocketMessage (Some (JObj [(''type'', JStr ''listening_stopped'')]))])"
  using isListening_follows_backend
    [of None "step initial (SocketMessage (Some (JObj [(''type'', JStr ''listening_started'')])))"
        StopListening
        "[SocketMessage (Some (JObj [(''type'', JStr ''user_transcript''), (''transcript'', JStr ''hello'')])),
          Advance 5000]"
        "JObj [(''type'', JStr ''listening_stopped'')]"]
  by (simp add: eval_defs clears_listening_def is_message_def stopListening_def ws_is_open_def
      ws_send_def)

subsection \<open>C9: an error message sets the error field and nothing else\<close>

text \<open>
  Claim C9. Handling an inbound message of type \<open>error\<close> changes the \<open>error\<close> field
  only: to the carried \<open>message\<close> when that is truthy (a text that is not empty, in
  particular), to \<open>Unknown error from backend\<close> otherwise. The connection status,
  \<open>isConnected\<close>, both flags and the turns are as before.
\<close>

theorem error_message_sets_error_only:
  assumes "jsprop data ''type'' = JStr ''error''"
  shows "ws_onmessage (Some data) s =
           s\<lparr>error := js_or (jsprop data ''message'') (JStr ''Unknown error from backend'')\<rparr>
         \<and> connectionStatus (ws_onmessage (Some data) s) = connectionStatus s
         \<and> isConnected (ws_onmessage (Some data) s) = isConnected s
         \<and> isListening (ws_onmessage (Some data) s) = isListening s
         \<and> isSpeaking (ws_onmessage (Some data) s) = isSpeaking s
         \<and> messages (ws_onmessage (Some data) s) = messages s
         \<and> (\<forall>t. jsprop data ''message'' = JStr t \<and> t \<noteq> [] \<longrightarrow>
               error (ws_onmessage (Some data) s) = JStr t)
         \<and> (jsprop data ''message'' = JUndefined \<longrightarrow>
               error (ws_onmessage (Some data) s) = JStr ''Unknown error from backend'')"
proof -
  have "\<not> nullish data" using assms by (rule typed_not_nullish)
  then have "ws_onmessage (Some data) s =
           s\<lparr>error := js_or (jsprop data ''message'') (JStr ''Unknown error from backend'')\<rparr>"
    using assms by (simp add: ws_onmessage_def handleMessageFromBackend_def)
  then show ?thesis by (simp add: js_or_def)
qed

theorem error_message_sets_error_only_witness:
  "step (initial\<lparr>isListening := True\<rparr>)
     (SocketMessage (Some (JObj [(''type'', JStr ''error''), (''message'', JStr ''quota exceeded'')])))
   = initial\<lparr>isListening := True, error := JStr ''quota exceeded''\<rparr>"
  using error_message_sets_error_only
    [of "JObj [(''type'', JStr ''error''), (''message'', JStr ''quota exceeded'')]"
        "initial\<lparr>isListening := True\<rparr>"]
  by (simp add: js_or_def)

subsection \<open>C5: unknown types are dropped, a parse failure on the socket is reported\<close>

text \<open>
  Claim C5 says that a message that does not parse has no effect on the state, the
  \<open>error\<close> field included. On the socket it has one: the \<open>catch\<close> of
  \<open>onmessage\<close> sets the error text.
\<close>

theorem parse_failure_sets_error_counterexample:
  "error (step initial (SocketMessage None)) \<noteq> error initial"
  by (simp add: ws_onmessage_def initial_def)

text \<open>
  Claim C5, amended. A message whose type neither switch knows leaves the state as it
  is, on the socket and on the room's data channel; so does a message that fails to parse
  (or parses to \<open>null\<close>) on the data channel. On the socket, a message that fails to
  parse or parses to \<open>null\<close> sets \<open>error\<close> to a fixed text and changes nothing else.
\<close>

theorem unknown_dropped_parse_failure_reported:
  "(unknown_type ws_types data \<longrightarrow> ws_onmessage (Some data) s = s)
   \<and> (unknown_type room_types data \<longrightarrow> handleDataReceived (Some data) s = s)
   \<and> handleDataReceived None s = s
   \<and> ws_onmessage None s = s\<lparr>error := JStr ''Error processing response from voice service''\<rparr>
   \<and> (nullish data \<longrightarrow> ws_onmessage (Some data) s
          = s\<lparr>error := JStr ''Error processing response from voice service''\<rparr>)
   \<and> (nullish data \<longrightarrow> handleDataReceived (Some data) s = s)"
  by (simp add: unknown_type_def ws_types_def room_types_def ws_onmessage_def
      handleMessageFromBackend_def handleDataReceived_def image_iff)

theorem unknown_dropped_parse_failure_reported_witness:
  "step (initial\<lparr>isSpeaking := True\<rparr>) (SocketMessage (Some (JObj [(''type'', JStr ''ping'')])))
     = initial\<lparr>isSpeaking := True\<rparr>
   \<and> step initial (RoomData (Some (JObj [(''type'', JStr ''error'')]))) = initial
   \<and> step initial (SocketMessage (Some JNull))
     = initial\<lparr>error := JStr ''Error processing response from voice service''\<rparr>"
  using unknown_dropped_parse_failure_reported
      [of "JObj [(''type'', JStr ''ping'')]" "initial\<lparr>isSpeaking := True\<rparr>"]
    unknown_dropped_parse_failure_reported [of "JObj [(''type'', JStr ''error'')]" initial]
    unknown_dropped_parse_failure_reported [of JNull initial]
  by (simp add: unknown_type_def ws_types_def room_types_def)

subsection \<open>C6: what the close handler sets\<close>

text \<open>
  Claim C6 says that a normal close clears \<open>isListening\<close> and \<open>isSpeaking\<close>. The
  handler does not touch them: a session that was listening when the socket closed with
  code 1000 is disconnected and still listening.
\<close>

theorem normal_close_keeps_isListening_counterexample:
  "isListening (run initial
     [Connect,
      SessionSettled (ResponseJson (JObj [(''session_id'', JStr ''abc123'')])),
      SocketOpen 0 (Inr [7]) None RoomOk,
      SocketMessage (Some (JObj [(''type'', JStr ''listening_started'')])),
      SocketClose 0 1000 []])
   \<and> connectionStatus (run initial
     [Connect,
      SessionSettled (ResponseJson (JObj [(''session_id'', JStr ''abc123'')])),
      SocketOpen 0 (Inr [7]) None RoomOk,
      SocketMessage (Some (JObj [(''type'', JStr ''listening_started'')])),
      SocketClose 0 1000 []]) = Disconnected"
  by (simp add: eval_defs)

text \<open>
  Claim C6, amended. When the socket closes with code 1000 the status becomes
  \<open>disconnected\<close> and the error is kept; with any other code the status becomes
  \<open>error\<close> and the error text carries the reason (or \<open>Unknown reason\<close>) and the
  code. Either way \<open>isConnected\<close> is reset, and \<open>isListening\<close> and \<open>isSpeaking\<close>
  are left as they were.
\<close>

theorem close_sets_status_keeps_flags:
  assumes "i < length (sockets s)"
  shows "connectionStatus (ws_onclose i 1000 reason s) = Disconnected
     \<and> error (ws_onclose i 1000 reason s) = error s
     \<and> \<not> isConnected (ws_onclose i code reason s)
     \<and> isListening (ws_onclose i code reason s) = isListening s
     \<and> isSpeaking (ws_onclose i code reason s) = isSpeaking s
     \<and> (code \<noteq> 1000 \<longrightarrow>
           connectionStatus (ws_onclose i code reason s) = ErrorStatus
         \<and> error (ws_onclose i code reason s) =
             JStr (''Connection closed: '' @ (if reason \<noteq> [] then reason else ''Unknown reason'')
                   @ '' (Code: '' @ string_of_nat code @ '')''))"
  using assms by (simp add: ws_onclose_def Let_def set_readyState_def)

theorem close_sets_status_keeps_flags_witness:
  "step (initial\<lparr>sockets := [\<lparr>url_session_id = JStr ''abc123'', session_used = JNull, readyState = OPEN\<rparr>],
                 isSpeaking := True\<rparr>) (SocketClose 0 1006 ''gone'')
   = initial\<lparr>sockets := [\<lparr>url_session_id = JStr ''abc123'', session_used = JNull, readyState = CLOSED\<rparr>],
             isSpeaking := True, connectionStatus := ErrorStatus,
             error := JStr ''Connection closed: gone (Code: 1006)''\<rparr>"
  using close_sets_status_keeps_flags
    [of 0 "initial\<lparr>sockets := [\<lparr>url_session_id = JStr ''abc123'', session_used = JNull, readyState = OPEN\<rparr>],
                 isSpeaking := True\<rparr>" "''gone''" 1006]
  by (simp add: eval_defs string_of_nat.simps)

subsection \<open>C4: the auto-clear timer is never cancelled\<close>

text \<open>
  Claim C4 says that a later event supersedes the pending auto-clear. It does not:
  \<open>processing_started\<close> arrives one second after an \<open>ai_response\<close> and sets
  \<open>isSpeaking\<close>; one second later the timer of the \<open>ai_response\<close> resets it.
\<close>

theorem stale_timer_clears_isSpeaking_counterexample:
  "isSpeaking (run initial
     [SocketMessage (Some (JObj [(''type'', JStr ''ai_response''), (''text'', JStr ''hi'')])),
      Advance 1000,
      SocketMessage (Some (JObj [(''type'', JStr ''processing_started'')]))])
   \<and> \<not> isSpeaking (run initial
     [SocketMessage (Some (JObj [(''type'', JStr ''ai_response''), (''text'', JStr ''hi'')])),
      Advance 1000,
      SocketMessage (Some (JObj [(''type'', JStr ''processing_started'')])),
      Advance 1000])"
  by (simp add: eval_defs)

text \<open>
  Claim C4, amended. An \<open>ai_response\<close> appends Turn(assistant, text), sets
  \<open>isSpeaking\<close> and starts a timer due 2000 ms later. No event takes a pending timer
  away; time passing leaves the state alone until a timer is due, and when one is due it
  runs and resets \<open>isSpeaking\<close>, whatever has happened since.
\<close>

theorem ai_response_timer_never_cancelled:
  "(jsprop data ''type'' = JStr ''ai_response'' \<longrightarrow>
      ws_onmessage (Some data) s =
        s\<lparr>messages := messages s @ [\<lparr>turn_type = Assistant, content = jsprop data ''text''\<rparr>],
          isSpeaking := True, timers := timers s @ [now s + 2000]\<rparr>)
   \<and> ((\<forall>d. e \<noteq> Advance d) \<longrightarrow> (\<exists>new. timers (step s e) = timers s @ new))
   \<and> (due \<in> set (timers s) \<and> due \<le> now s + d \<longrightarrow>
         \<not> isSpeaking (advance d s) \<and> due \<notin> set (timers (advance d s)))
   \<and> ((\<forall>due\<in>set (timers s). now s + d < due) \<longrightarrow> advance d s = s\<lparr>now := now s + d\<rparr>)"
proof (intro conjI impI)
  assume a: "jsprop data ''type'' = JStr ''ai_response''"
  then have "\<not> nullish data" by (rule typed_not_nullish)
  then show "ws_onmessage (Some data) s =
        s\<lparr>messages := messages s @ [\<lparr>turn_type = Assistant, content = jsprop data ''text''\<rparr>],
          isSpeaking := True, timers := timers s @ [now s + 2000]\<rparr>"
    using a by (simp add: ws_onmessage_def handleMessageFromBackend_def appendMessage_def)
next
  assume "\<forall>d. e \<noteq> Advance d"
  then show "\<exists>new. timers (step s e) = timers s @ new" by (rule step_timers)
next
  assume a: "due \<in> set (timers s) \<and> due \<le> now s + d"
  then have "filter (\<lambda>due. due \<le> now s + d) (timers s) \<noteq> []"
    by (auto simp: filter_empty_conv)
  then show "\<not> isSpeaking (advance d s)" "due \<notin> set (timers (advance d s))"
    using a by (simp_all add: advance_def Let_def)
next
  assume "\<forall>due\<in>set (timers s). now s + d < due"
  then have "filter (\<lambda>due. due \<le> now s + d) (timers s) = []"
    by (auto simp: filter_empty_conv)
  then show "advance d s = s\<lparr>now := now s + d\<rparr>" by (simp add: advance_def Let_def)
qed

theorem ai_response_timer_never_cancelled_witness:
  "step initial (SocketMessage (Some (JObj [(''type'', JStr ''ai_response''), (''text'', JStr ''Your flight is booked'')])))
     = initial\<lparr>messages := [\<lparr>turn_type = Assistant, content = JStr ''Your flight is booked''\<rparr>],
          isSpeaking := True, timers := [2000]\<rparr>
   \<and> \<not> isSpeaking (advance 2000 (initial\<lparr>isSpeaking := True, timers := [2000]\<rparr>))
   \<and> advance 1999 (initial\<lparr>isSpeaking := True, timers := [2000]\<rparr>)
       = initial\<lparr>isSpeaking := True, timers := [2000], now := 1999\<rparr>
   \<and> timers (step (initial\<lparr>isSpeaking := True, timers := [2000]\<rparr>)
        (SocketMessage (Some (JObj [(''type'', JStr ''processing_stopped'')])))) = [2000]"
  using ai_response_timer_never_cancelled
     [of "JObj [(''type'', JStr ''ai_response''), (''text'', JStr ''Your flight is booked'')]" initial
         "Connect" 0 0]
    ai_response_timer_never_cancelled
     [of JNull "initial\<lparr>isSpeaking := True, timers := [2000]\<rparr>"
         "SocketMessage (Some (JObj [(''type'', JStr ''processing_stopped'')]))" 2000 2000]
    ai_response_timer_never_cancelled
     [of JNull "initial\<lparr>isSpeaking := True, timers := [2000]\<rparr>" "Connect" 2000 1999]
  by (simp add: eval_defs)

subsection \<open>C2: a second connect reuses the session and opens another socket\<close>

text \<open>
  Claim C2 says that two calls of \<open>connectToVoiceService\<close> leave one channel. They
  leave two sockets, both connecting, the ref holding the second.
\<close>

theorem second_connect_opens_second_socket_counterexample:
  "map readyState (sockets (run initial
      [Connect, SessionSettled (ResponseJson (JObj [(''session_id'', JStr ''abc123'')])), Connect]))
     = [CONNECTING, CONNECTING]
   \<and> wsRef (run initial
      [Connect, SessionSettled (ResponseJson (JObj [(''session_id'', JStr ''abc123'')])), Connect])
     = Some 1"
  by (simp add: eval_defs)

text \<open>
  Claim C2, amended. Called with a session in \<open>sessionData\<close>, \<open>connectToVoiceService\<close>
  keeps that session and issues no request for another; it constructs one more socket
  for the session, stores it in \<open>wsRef\<close>, and leaves the sockets made before as they
  are.
\<close>

theorem connect_reuses_session_not_socket:
  assumes "truthy (sessionData s)"
  shows "sessionData (connectToVoiceService s) = sessionData s
     \<and> sessionId (connectToVoiceService s) = sessionId s
     \<and> calls (connectToVoiceService s) = calls s
     \<and> sockets (connectToVoiceService s) = sockets s @
          [\<lparr>url_session_id = jsprop (sessionData s) ''session_id'',
            session_used = sessionData s, readyState = CONNECTING\<rparr>]
     \<and> wsRef (connectToVoiceService s) = Some (length (sockets s))
     \<and> connectionStatus (connectToVoiceService s) = Connecting"
proof -
  have "\<not> nullish (sessionData s)"
    using assms by (cases "sessionData s") simp_all
  then show ?thesis
    using assms by (simp add: connectToVoiceService_def connect_socket_def get_prop_def Let_def)
qed

theorem connect_reuses_session_not_socket_witness:
  "calls (run initial
      [Connect, SessionSettled (ResponseJson (JObj [(''session_id'', JStr ''abc123'')])), Connect])
     = [Fetch_sessions]
   \<and> length (sockets (run initial
      [Connect, SessionSettled (ResponseJson (JObj [(''session_id'', JStr ''abc123'')])), Connect])) = 2"
  using connect_reuses_session_not_socket
    [of "run initial [Connect, SessionSettled (ResponseJson (JObj [(''session_id'', JStr ''abc123'')]))]"]
  by (simp add: eval_defs)

subsection \<open>C7: a second teardown repeats the release calls\<close>

text \<open>
  Claim C7 says that a second teardown releases nothing again and changes nothing. After
  the close handler, the unmount cleanup stops the track of the captured stream a second
  time.
\<close>

theorem second_teardown_stops_tracks_again_counterexample:
  "count_list (calls (run initial
     [Connect,
      SessionSettled (ResponseJson (JObj [(''session_id'', JStr ''abc123'')])),
      SocketOpen 0 (Inr [7]) None RoomOk,
      SocketClose 0 1000 [],
      Unmount])) (TrackStop 7) = 2"
  by (simp add: eval_defs)

text \<open>
  Claim C7, amended. A second teardown (the close handler again, the unmount cleanup
  after the close handler, or the cleanup after itself) leaves every state cell and every
  ref of the hook as the first left it, and does not stop the recorder again. It does
  repeat the other release calls: \<open>stop()\<close> on every track of the captured stream and
  \<open>close()\<close> on the audio context, with \<open>disconnect()\<close> on the room and, at
  unmount, \<open>close()\<close> on the socket and \<open>cancelAnimationFrame\<close>.
\<close>

theorem second_teardown_repeats_release_calls:
  "(i < length (sockets s) \<longrightarrow>
      ws_onclose i code reason (ws_onclose i code reason s)
        = (ws_onclose i code reason s)
            \<lparr>calls := calls (ws_onclose i code reason s) @ release_calls s\<rparr>)
   \<and> (i < length (sockets s) \<and> wsRef s = Some i \<longrightarrow>
      cleanup (ws_onclose i code reason s)
        = (ws_onclose i code reason s)
            \<lparr>calls := calls (ws_onclose i code reason s) @ unmount_calls s\<rparr>)
   \<and> cleanup (cleanup s) = (cleanup s)\<lparr>calls := calls (cleanup s) @ unmount_calls s\<rparr>
   \<and> RecorderStop \<notin> set (release_calls s) \<and> RecorderStop \<notin> set (unmount_calls s)
   \<and> (\<forall>tracks. audioStreamRef s = Some tracks \<longrightarrow>
         (\<forall>t\<in>set tracks. TrackStop t \<in> set (release_calls s) \<and> TrackStop t \<in> set (unmount_calls s)))
   \<and> (audioContextRef s \<longrightarrow>
         ContextClose \<in> set (release_calls s) \<and> ContextClose \<in> set (unmount_calls s))"
proof (intro conjI impI allI ballI)
  show "RecorderStop \<notin> set (release_calls s)"
    by (auto simp: release_calls_def split: option.splits)
  show "RecorderStop \<notin> set (unmount_calls s)"
    by (auto simp: unmount_calls_def split: option.splits)
  show "cleanup (cleanup s) = (cleanup s)\<lparr>calls := calls (cleanup s) @ unmount_calls s\<rparr>"
    by (rule cleanup_twice)
next
  assume "i < length (sockets s)"
  then show "ws_onclose i code reason (ws_onclose i code reason s)
        = (ws_onclose i code reason s)
            \<lparr>calls := calls (ws_onclose i code reason s) @ release_calls s\<rparr>"
    by (rule ws_onclose_twice)
next
  assume "i < length (sockets s) \<and> wsRef s = Some i"
  then show "cleanup (ws_onclose i code reason s)
        = (ws_onclose i code reason s)
            \<lparr>calls := calls (ws_onclose i code reason s) @ unmount_calls s\<rparr>"
    by (simp add: cleanup_after_onclose)
next
  fix tracks t
  assume "audioStreamRef s = Some tracks" and "t \<in> set tracks"
  then show "TrackStop t \<in> set (release_calls s)" "TrackStop t \<in> set (unmount_calls s)"
    by (simp_all add: release_calls_def unmount_calls_def)
next
  assume "audioContextRef s"
  then show "ContextClose \<in> set (release_calls s)" "ContextClose \<in> set (unmount_calls s)"
    by (simp_all add: release_calls_def unmount_calls_def)
qed

theorem second_teardown_repeats_release_calls_witness:
  "calls (cleanup (ws_onclose 0 1000 [] (run initial
     [Connect,
      SessionSettled (ResponseJson (JObj [(''session_id'', JStr ''abc123''),
        (''livekit_room'', JStr ''r1''), (''livekit_user_token'', JStr ''t1'')])),
      SocketOpen 0 (Inr [7]) None RoomOk])))
   = [Fetch_sessions, TrackStop 7, ContextClose, RoomDisconnect,
      TrackStop 7, ContextClose, WsClose 0, RoomDisconnect]
   \<and> mediaRecorderRef (cleanup (ws_onclose 0 1000 [] (run initial
     [Connect,
      SessionSettled (ResponseJson (JObj [(''session_id'', JStr ''abc123''),
        (''livekit_room'', JStr ''r1''), (''livekit_user_token'', JStr ''t1'')])),
      SocketOpen 0 (Inr [7]) None RoomOk]))) = Some Inactive"
  using second_teardown_repeats_release_calls
    [of 0 "run initial
     [Connect,
      SessionSettled (ResponseJson (JObj [(''session_id'', JStr ''abc123''),
        (''livekit_room'', JStr ''r1''), (''livekit_user_token'', JStr ''t1'')])),
      SocketOpen 0 (Inr [7]) None RoomOk]" 1000 "[]"]
  by (simp add: eval_defs release_calls_def unmount_calls_def)

subsection \<open>C8: the voice activity sample is normalized\<close>

text \<open>
  Claim C8. For an array of at least three bins (so that no band is empty), the sample
  \<open>detectVoiceActivity\<close> emits has, as its overall value and its low, mid and high
  values, \<open>min(1, average / sensitivity)\<close> of all the bins and of the bins before
  \<open>floor(n/3)\<close>, from there to before \<open>floor(2n/3)\<close>, and from there on; each of
  the four lies in [0, 1].
\<close>

theorem voice_sample_normalized:
  assumes "3 \<le> length bins"
  shows "fst (fst (detectVoiceActivity time bins history)) = voice_sample time bins
     \<and> overall (voice_sample time bins) = Fin (min 1 (average_of bins / sensitivity))
     \<and> low (voice_sample time bins)
           = Fin (min 1 (average_of (take (length bins div 3) bins) / sensitivity))
     \<and> mid (voice_sample time bins)
           = Fin (min 1 (average_of (take (2 * length bins div 3 - length bins div 3)
                                        (drop (length bins div 3) bins)) / sensitivity))
     \<and> high (voice_sample time bins)
           = Fin (min 1 (average_of (drop (2 * length bins div 3) bins) / sensitivity))
     \<and> in_unit (overall (voice_sample time bins)) \<and> in_unit (low (voice_sample time bins))
     \<and> in_unit (mid (voice_sample time bins)) \<and> in_unit (high (voice_sample time bins))"
  using voice_sample_bands [OF assms, of time]
  by (simp add: in_unit_average detectVoiceActivity_def Let_def)

theorem voice_sample_normalized_witness:
  "voice_sample 0 [1, 2, 3, 255, 0, 9, 30]
     = \<lparr>timestamp = 0, overall = Fin 1, low = Fin (1 / 20), mid = Fin 1, high = Fin (13 / 30)\<rparr>
   \<and> in_unit (low (voice_sample 0 [1, 2, 3, 255, 0, 9, 30]))"
  using voice_sample_normalized [of "[1, 2, 3, 255, 0, 9, 30]" 0 "[]"]
  by (simp add: voice_sample_def js_div_def sensitivity_def Let_def)

end
